theory Spec2Isabelle
  imports Complex_Main
begin

section \<open>Shared JavaScript helpers\<close>

text \<open>
  Decimal rendering of an integer, as a template literal renders an integral
  \<open>number\<close> (\<^verbatim>\<open>`task-${day}-1`\<close>, \<^verbatim>\<open>`HTTP ${response.status}: ...`\<close>).
\<close>

definition digit_char :: "nat \<Rightarrow> char" where
  "digit_char n = ''0123456789'' ! (n mod 10)"

fun digits :: "nat \<Rightarrow> string" where
  "digits n = (if n < 10 then [digit_char n] else digits (n div 10) @ [digit_char (n mod 10)])"

declare digits.simps [simp del]

definition string_of_int :: "int \<Rightarrow> string" where
  "string_of_int i = (if i < 0 then CHR ''-'' # digits (nat (- i)) else digits (nat i))"

section \<open>Resilient transport: \<open>NetworkService\<close>\<close>

text \<open>
  \<open>CONFIG\<close> comes from \<^verbatim>\<open>./config\<close>, which is not part of the sources at hand; the
  values the transport reads from it are taken as a parameter.
\<close>

record CONFIG =
  APP_NAME :: string
  APP_VERSION :: string
  APP_BUNDLE_ID :: string
  API_TIMEOUT :: int
  API_RETRY_ATTEMPTS :: int
  API_RETRY_DELAY :: int

type_synonym headers = "string \<rightharpoonup> string"

record NetworkError =
  message :: string
  status :: "int option"
  code :: "string option"
  isNetworkError :: bool
  isRetryable :: bool

text \<open>\<open>RequestConfig\<close>: every field is optional (\<open>None\<close> is \<open>undefined\<close>).\<close>

record RequestConfig =
  timeout :: "int option"
  retries :: "int option"
  retryDelay :: "int option"
  cfg_headers :: "headers option"
  skipAuth :: "bool option"

datatype body = FormData "(string \<times> string) list" | Text string

text \<open>The \<open>RequestInit\<close> handed to \<open>makeRequest\<close> and the request that reaches \<open>fetch\<close>.\<close>

record RequestInit =
  http_method :: string
  init_body :: "body option"

record request =
  req_url :: string
  req_method :: string
  req_body :: "body option"
  req_headers :: headers

record Response =
  resp_status :: int
  statusText :: string

text \<open>
  What a \<open>throw\<close> carries: an \<open>Error\<close> instance with its \<open>name\<close> and \<open>message\<close>, or a
  value that is not an \<open>Error\<close>.  What \<open>fetch\<close> does on one attempt: it resolves with a
  response or rejects with a thrown value.
\<close>

datatype thrown = ErrorInstance string string | NotAnError

datatype fetch_outcome = Resolved Response | Rejected thrown

text \<open>
  What \<open>makeRequest\<close> propagates: a classified \<open>NetworkError\<close>, or \<open>undefined\<close> when
  \<^verbatim>\<open>throw lastError!\<close> runs with \<open>lastError\<close> never assigned.
\<close>

datatype propagated = Throw NetworkError | ThrowUndefined

text \<open>
  One run of \<open>makeRequest\<close>: its result and, in the order they happen, the calls to
  \<open>fetch\<close> (one per attempt, with the request sent) and the calls to \<open>delay\<close> (with
  the milliseconds waited).
\<close>

datatype event = Fetch request | Delay int

record run =
  result :: "propagated + Response"
  trace :: "event list"

fun is_fetch :: "event \<Rightarrow> bool" where
  "is_fetch (Fetch _) = True"
| "is_fetch (Delay _) = False"

definition attempts :: "run \<Rightarrow> nat" where
  "attempts r = length (filter is_fetch (trace r))"

definition requests :: "run \<Rightarrow> request list" where
  "requests r = concat (map (\<lambda>e. case e of Fetch q \<Rightarrow> [q] | Delay _ \<Rightarrow> []) (trace r))"

definition delays :: "run \<Rightarrow> int list" where
  "delays r = concat (map (\<lambda>e. case e of Fetch _ \<Rightarrow> [] | Delay d \<Rightarrow> [d]) (trace r))"

definition baseHeaders :: "CONFIG \<Rightarrow> headers" where
  "baseHeaders cfg =
     [''Content-Type'' \<mapsto> ''application/json'',
      ''User-Agent'' \<mapsto> APP_NAME cfg @ ''/'' @ APP_VERSION cfg @ '' ('' @ APP_BUNDLE_ID cfg @ '')'']"

definition isRetryableError :: "int option \<Rightarrow> string option \<Rightarrow> bool" where
  "isRetryableError st cd =
     (case st of
        None \<Rightarrow> True
      | Some s \<Rightarrow>
          if s = 0 then True
          else if s \<ge> 500 then True
          else if s = 408 \<or> s = 429 then True
          else if cd = Some ''NETWORK_ERROR'' \<or> cd = Some ''TIMEOUT'' then True
          else False)"

definition createError :: "string \<Rightarrow> int option \<Rightarrow> string option \<Rightarrow> NetworkError" where
  "createError msg st cd =
     \<lparr>message = msg, status = st, code = cd, isNetworkError = True,
      isRetryable = isRetryableError st cd\<rparr>"

text \<open>The template literal \<^verbatim>\<open>`HTTP ${response.status}: ${response.statusText}`\<close>.\<close>

definition http_error_message :: "Response \<Rightarrow> string" where
  "http_error_message r = ''HTTP '' @ string_of_int (resp_status r) @ '': '' @ statusText r"

definition ok :: "Response \<Rightarrow> bool" where
  "ok r = (200 \<le> resp_status r \<and> resp_status r \<le> 299)"

text \<open>
  The body of the \<open>try\<close> block of one attempt.  It returns the response, or asks for
  the next attempt after a delay (the \<open>continue\<close>), or throws: a rejection of \<open>fetch\<close>,
  or the \<open>NetworkError\<close> of a response that is not ok.  That error is an \<open>Error\<close>
  instance whose \<open>name\<close> is \<open>Error\<close>, and it is thrown inside the \<open>try\<close>.
\<close>

datatype try_result = Return Response | Continue NetworkError | ThrownInTry thrown

definition try_block :: "fetch_outcome \<Rightarrow> int \<Rightarrow> int \<Rightarrow> try_result" where
  "try_block out attempt rts =
     (case out of
        Rejected x \<Rightarrow> ThrownInTry x
      | Resolved response \<Rightarrow>
          if \<not> ok response then
            (let errorMessage = http_error_message response;
                 error = createError errorMessage (Some (resp_status response)) None
             in if \<not> isRetryable error \<or> attempt = rts then ThrownInTry (ErrorInstance ''Error'' (message error))
                else Continue error)
          else Return response)"

text \<open>The \<open>catch\<close> block: the caught value is classified again, without its status.\<close>

definition catch_block :: "thrown \<Rightarrow> NetworkError" where
  "catch_block error =
     (case error of
        ErrorInstance name msg \<Rightarrow>
          createError msg None (Some (if name = ''AbortError'' then ''TIMEOUT'' else ''NETWORK_ERROR''))
      | NotAnError \<Rightarrow> createError ''Unknown network error'' None None)"

text \<open>
  The \<open>for\<close> loop.  \<open>fetch\<close> gives the outcome of the call made for a request on a given
  attempt; \<open>rq\<close> is the request built before the loop; \<open>tr\<close> collects the trace.
\<close>

function makeRequest_loop ::
  "(request \<Rightarrow> int \<Rightarrow> fetch_outcome) \<Rightarrow> request \<Rightarrow> int \<Rightarrow> int \<Rightarrow> int \<Rightarrow>
   NetworkError option \<Rightarrow> event list \<Rightarrow> run" where
  "makeRequest_loop fetch rq rts rdelay attempt lastError tr =
     (if attempt \<le> rts then
        (case try_block (fetch rq attempt) attempt rts of
           Return response \<Rightarrow> \<lparr>result = Inr response, trace = tr @ [Fetch rq]\<rparr>
         | Continue error \<Rightarrow>
             makeRequest_loop fetch rq rts rdelay (attempt + 1) (Some error)
               (tr @ [Fetch rq, Delay (rdelay * 2 ^ nat attempt)])
         | ThrownInTry x \<Rightarrow>
             (let networkError = catch_block x
              in if \<not> isRetryable networkError \<or> attempt = rts
                 then \<lparr>result = Inl (Throw networkError), trace = tr @ [Fetch rq]\<rparr>
                 else makeRequest_loop fetch rq rts rdelay (attempt + 1) (Some networkError)
                        (tr @ [Fetch rq, Delay (rdelay * 2 ^ nat attempt)])))
      else \<lparr>result = Inl (case lastError of None \<Rightarrow> ThrowUndefined | Some e \<Rightarrow> Throw e),
             trace = tr\<rparr>)"
  by pat_completeness auto
termination
  by (relation "measure (\<lambda>(fetch, rq, rts, rdelay, attempt, lastError, tr). nat (rts + 1 - attempt))") auto

declare makeRequest_loop.simps [simp del]

text \<open>The destructuring defaults of \<open>makeRequest\<close>.\<close>

definition retries_of :: "CONFIG \<Rightarrow> RequestConfig option \<Rightarrow> int" where
  "retries_of cfg config =
     (case Option.bind config retries of None \<Rightarrow> API_RETRY_ATTEMPTS cfg | Some r \<Rightarrow> r)"

definition retryDelay_of :: "CONFIG \<Rightarrow> RequestConfig option \<Rightarrow> int" where
  "retryDelay_of cfg config =
     (case Option.bind config retryDelay of None \<Rightarrow> API_RETRY_DELAY cfg | Some d \<Rightarrow> d)"

definition config_headers :: "RequestConfig option \<Rightarrow> headers" where
  "config_headers config = (case Option.bind config cfg_headers of None \<Rightarrow> Map.empty | Some h \<Rightarrow> h)"

definition requestHeaders :: "CONFIG \<Rightarrow> RequestConfig option \<Rightarrow> headers" where
  "requestHeaders cfg config = baseHeaders cfg ++ config_headers config"

definition makeRequest ::
  "CONFIG \<Rightarrow> (request \<Rightarrow> int \<Rightarrow> fetch_outcome) \<Rightarrow> string \<Rightarrow> RequestInit \<Rightarrow> RequestConfig option \<Rightarrow> run" where
  "makeRequest cfg fetch url options config =
     (let rq = \<lparr>req_url = url, req_method = http_method options, req_body = init_body options,
                req_headers = requestHeaders cfg config\<rparr>
      in makeRequest_loop fetch rq (retries_of cfg config) (retryDelay_of cfg config) 0 None [])"

text \<open>
  \<open>post\<close> and \<open>uploadFile\<close> up to the call of \<open>makeRequest\<close> (what follows is
  \<open>response.json()\<close>).  \<open>JSON.stringify(data)\<close> is the text carried by \<open>Text\<close>.
\<close>

definition spread_config :: "RequestConfig option \<Rightarrow> headers \<Rightarrow> RequestConfig option" where
  "spread_config config h =
     Some (case config of
             None \<Rightarrow> \<lparr>timeout = None, retries = None, retryDelay = None, cfg_headers = Some h, skipAuth = None\<rparr>
           | Some c \<Rightarrow> c\<lparr>cfg_headers := Some h\<rparr>)"

definition post ::
  "CONFIG \<Rightarrow> (request \<Rightarrow> int \<Rightarrow> fetch_outcome) \<Rightarrow> string \<Rightarrow> body \<Rightarrow> RequestConfig option \<Rightarrow> run" where
  "post cfg fetch url data config =
     (let hdrs = (case data of FormData _ \<Rightarrow> Map.empty | Text _ \<Rightarrow> [''Content-Type'' \<mapsto> ''application/json''])
      in makeRequest cfg fetch url \<lparr>http_method = ''POST'', init_body = Some data\<rparr>
           (spread_config config (hdrs ++ config_headers config)))"

definition uploadFile ::
  "CONFIG \<Rightarrow> (request \<Rightarrow> int \<Rightarrow> fetch_outcome) \<Rightarrow> string \<Rightarrow> (string \<times> string) list \<Rightarrow> RequestConfig option \<Rightarrow> run" where
  "uploadFile cfg fetch url formData config =
     makeRequest cfg fetch url \<lparr>http_method = ''POST'', init_body = Some (FormData formData)\<rparr>
       (spread_config config (config_headers config))"

text \<open>
  Vocabulary for the retry properties: every attempt up to \<open>rts\<close> resolves with a
  response that is not ok, or with a status of at least 500; and the trace of a run that
  fetches \<open>n + 1\<close> times with the exponential backoff in between.
\<close>

definition all_not_ok :: "(request \<Rightarrow> int \<Rightarrow> fetch_outcome) \<Rightarrow> request \<Rightarrow> int \<Rightarrow> int \<Rightarrow> bool" where
  "all_not_ok fetch rq a rts = (\<forall>i. a \<le> i \<and> i \<le> rts \<longrightarrow> (\<exists>r. fetch rq i = Resolved r \<and> \<not> ok r))"


definition backoff_trace :: "request \<Rightarrow> int \<Rightarrow> nat \<Rightarrow> event list" where
  "backoff_trace rq rd n = concat (map (\<lambda>k. [Fetch rq, Delay (rd * 2 ^ k)]) [0..<n]) @ [Fetch rq]"

text \<open>A concrete configuration and a server that answers every attempt alike.\<close>

definition cfg0 :: CONFIG where
  "cfg0 = \<lparr>APP_NAME = ''GlowCheck'', APP_VERSION = ''1.0.0'', APP_BUNDLE_ID = ''app.glowcheck'',
            API_TIMEOUT = 30000, API_RETRY_ATTEMPTS = 3, API_RETRY_DELAY = 1000\<rparr>"

definition always :: "int \<Rightarrow> string \<Rightarrow> request \<Rightarrow> int \<Rightarrow> fetch_outcome" where
  "always st txt rq attempt = Resolved \<lparr>resp_status = st, statusText = txt\<rparr>"

definition get_x :: RequestInit where
  "get_x = \<lparr>http_method = ''GET'', init_body = None\<rparr>"

section \<open>Dates: the part of \<open>Date\<close> the entitlement code uses\<close>

text \<open>
  A \<open>Date\<close> is its time value, the milliseconds since the epoch.  \<open>setDate\<close>,
  \<open>setMonth\<close> and \<open>setFullYear\<close> follow the date algorithms of the language
  standard (\<open>Day\<close>, \<open>DayFromYear\<close>, \<open>YearFromTime\<close>, \<open>MonthFromTime\<close>,
  \<open>DateFromTime\<close>, \<open>MakeDay\<close>, \<open>MakeDate\<close>, \<open>LocalTime\<close>, \<open>UTC\<close>).  They work in the
  local time of the device, so the time zone is a parameter of every one of them.  The
  clip to the representable range of time values is left out.  An ISO string written by
  \<open>toISOString\<close> and read back by \<open>new Date\<close> is the same time value, so stored dates
  are time values too.
\<close>

definition msPerDay :: int where
  "msPerDay = 86400000"

definition Day :: "int \<Rightarrow> int" where
  "Day t = t div msPerDay"

definition TimeWithinDay :: "int \<Rightarrow> int" where
  "TimeWithinDay t = t mod msPerDay"

definition DaysInYear :: "int \<Rightarrow> int" where
  "DaysInYear y =
     (if y mod 4 \<noteq> 0 then 365 else if y mod 100 \<noteq> 0 then 366 else if y mod 400 \<noteq> 0 then 365 else 366)"

definition DayFromYear :: "int \<Rightarrow> int" where
  "DayFromYear y = 365 * (y - 1970) + (y - 1969) div 4 - (y - 1901) div 100 + (y - 1601) div 400"

lemma div_succ:
  fixes x k :: int
  assumes "0 < k"
  shows "(x + 1) div k = x div k + (if (x + 1) mod k = 0 then 1 else 0)"
proof -
  define q where "q = x div k"
  define r where "r = x mod k"
  have x: "x = k * q + r" by (simp add: q_def r_def)
  have r: "0 \<le> r" "r < k" using assms by (simp_all add: r_def)
  show ?thesis
  proof (cases "r + 1 = k")
    case True
    have e: "x + 1 = k * (q + 1) + 0" using x True by (simp add: algebra_simps)
    have "(x + 1) div k = q + 1" using assms by (intro int_div_pos_eq[OF e]) simp_all
    moreover have "(x + 1) mod k = 0" using assms by (intro int_mod_pos_eq[OF e]) simp_all
    ultimately show ?thesis by (simp add: q_def)
  next
    case False
    have e: "x + 1 = k * q + (r + 1)" using x by simp
    have b: "0 \<le> r + 1" "r + 1 < k" using r False by simp_all
    have "(x + 1) div k = q" by (rule int_div_pos_eq[OF e b])
    moreover have "(x + 1) mod k = r + 1" by (rule int_mod_pos_eq[OF e b])
    ultimately show ?thesis using r by (simp add: q_def)
  qed
qed

lemma mod_shift: 
  fixes y :: int
  shows "(y - 1968) mod 4 = 0 \<longleftrightarrow> y mod 4 = 0"
    "(y - 1900) mod 100 = 0 \<longleftrightarrow> y mod 100 = 0"
    "(y - 1600) mod 400 = 0 \<longleftrightarrow> y mod 400 = 0"
proof -
  have "(y - 1968) mod 4 = (y + 4 * (- 492)) mod 4" by simp
  also have "\<dots> = y mod 4" by (rule mod_mult_self2)
  finally show "(y - 1968) mod 4 = 0 \<longleftrightarrow> y mod 4 = 0" by simp
  have "(y - 1900) mod 100 = (y + 100 * (- 19)) mod 100" by simp
  also have "\<dots> = y mod 100" by (rule mod_mult_self2)
  finally show "(y - 1900) mod 100 = 0 \<longleftrightarrow> y mod 100 = 0" by simp
  have "(y - 1600) mod 400 = (y + 400 * (- 4)) mod 400" by simp
  also have "\<dots> = y mod 400" by (rule mod_mult_self2)
  finally show "(y - 1600) mod 400 = 0 \<longleftrightarrow> y mod 400 = 0" by simp
qed

lemma mod_chain:
  fixes y :: int
  shows "y mod 400 = 0 \<Longrightarrow> y mod 100 = 0" "y mod 100 = 0 \<Longrightarrow> y mod 4 = 0"
proof -
  assume "y mod 400 = 0"
  then have "400 dvd y" by (simp add: dvd_eq_mod_eq_0)
  moreover have "(100::int) dvd 400" by simp
  ultimately have "100 dvd y" by (rule dvd_trans[rotated])
  then show "y mod 100 = 0" by simp
next
  assume "y mod 100 = 0"
  then have "100 dvd y" by (simp add: dvd_eq_mod_eq_0)
  moreover have "(4::int) dvd 100" by simp
  ultimately have "4 dvd y" by (rule dvd_trans[rotated])
  then show "y mod 4 = 0" by simp
qed

lemma DayFromYear_step: "DayFromYear (y + 1) = DayFromYear y + DaysInYear y"
proof -
  have a: "(y + 1 - 1969) div 4 = (y - 1969) div 4 + (if y mod 4 = 0 then 1 else 0)"
    using div_succ[of 4 "y - 1969"] mod_shift(1)[of y] by (simp add: algebra_simps)
  have b: "(y + 1 - 1901) div 100 = (y - 1901) div 100 + (if y mod 100 = 0 then 1 else 0)"
    using div_succ[of 100 "y - 1901"] mod_shift(2)[of y] by (simp add: algebra_simps)
  have c: "(y + 1 - 1601) div 400 = (y - 1601) div 400 + (if y mod 400 = 0 then 1 else 0)"
    using div_succ[of 400 "y - 1601"] mod_shift(3)[of y] by (simp add: algebra_simps)
  show ?thesis
    unfolding DayFromYear_def DaysInYear_def a b c
    using mod_chain[of y] by auto
qed

lemma DaysInYear_pos: "0 < DaysInYear y"
  by (simp add: DaysInYear_def)

text \<open>
  \<open>YearFromTime\<close> is the largest year whose first day is not after the day of \<open>t\<close>:
  a search upwards from a year that starts no later than that day.
\<close>

function year_from :: "int \<Rightarrow> int \<Rightarrow> int" where
  "year_from y d = (if DayFromYear (y + 1) \<le> d then year_from (y + 1) d else y)"
  by pat_completeness auto
termination
proof (relation "measure (\<lambda>(y, d). nat (d - DayFromYear y))")
  show "wf (measure (\<lambda>(y, d). nat (d - DayFromYear y)))" by simp
next
  fix y d :: int
  assume "DayFromYear (y + 1) \<le> d"
  then show "((y + 1, d), (y, d)) \<in> measure (\<lambda>(y, d). nat (d - DayFromYear y))"
    using DaysInYear_pos[of y] by (simp add: DayFromYear_step)
qed

declare year_from.simps [simp del]

definition YearFromDay :: "int \<Rightarrow> int" where
  "YearFromDay d = year_from (1970 + (if 0 \<le> d then d div 366 else d div 365)) d"

definition YearFromTime :: "int \<Rightarrow> int" where
  "YearFromTime t = YearFromDay (Day t)"

definition InLeapYear :: "int \<Rightarrow> bool" where
  "InLeapYear t = (DaysInYear (YearFromTime t) = 366)"

definition DayWithinYear :: "int \<Rightarrow> int" where
  "DayWithinYear t = Day t - DayFromYear (YearFromTime t)"

text \<open>The day of the year on which month \<open>m\<close> (0 to 11) starts; 12 gives the year's length.\<close>

definition month_start :: "bool \<Rightarrow> int \<Rightarrow> int" where
  "month_start leap m =
     (let l = (if leap then 1 else 0)
      in if m = 0 then 0 else if m = 1 then 31 else if m = 2 then 59 + l else if m = 3 then 90 + l
         else if m = 4 then 120 + l else if m = 5 then 151 + l else if m = 6 then 181 + l
         else if m = 7 then 212 + l else if m = 8 then 243 + l else if m = 9 then 273 + l
         else if m = 10 then 304 + l else if m = 11 then 334 + l else 365 + l)"

definition MonthFromTime :: "int \<Rightarrow> int" where
  "MonthFromTime t =
     (let d = DayWithinYear t; l = (if InLeapYear t then 1 else 0)
      in if d < 31 then 0 else if d < 59 + l then 1 else if d < 90 + l then 2 else if d < 120 + l then 3
         else if d < 151 + l then 4 else if d < 181 + l then 5 else if d < 212 + l then 6
         else if d < 243 + l then 7 else if d < 273 + l then 8 else if d < 304 + l then 9
         else if d < 334 + l then 10 else 11)"

definition DateFromTime :: "int \<Rightarrow> int" where
  "DateFromTime t =
     (let d = DayWithinYear t; l = (if InLeapYear t then 1 else 0); m = MonthFromTime t
      in if m = 0 then d + 1 else if m = 1 then d - 30 else if m = 2 then d - 58 - l
         else if m = 3 then d - 89 - l else if m = 4 then d - 119 - l else if m = 5 then d - 150 - l
         else if m = 6 then d - 180 - l else if m = 7 then d - 211 - l else if m = 8 then d - 242 - l
         else if m = 9 then d - 272 - l else if m = 10 then d - 303 - l else d - 333 - l)"

definition MakeDay :: "int \<Rightarrow> int \<Rightarrow> int \<Rightarrow> int" where
  "MakeDay year month date =
     (let ym = year + month div 12; mn = month mod 12
      in DayFromYear ym + month_start (DaysInYear ym = 366) mn + date - 1)"

definition MakeDate :: "int \<Rightarrow> int \<Rightarrow> int" where
  "MakeDate day time = day * msPerDay + time"

text \<open>
  The time zone of the device: its offset from UTC in milliseconds, at a UTC time value
  and at a local time value (the standard's \<open>LocalTZA\<close> with \<open>isUTC\<close> true and false;
  a local time that a transition skips or repeats is read with the offset before the
  transition).  The two differ around a change of offset such as daylight saving.
\<close>

record zone =
  offset_at_utc :: "int \<Rightarrow> int"
  offset_at_local :: "int \<Rightarrow> int"

definition LocalTime :: "zone \<Rightarrow> int \<Rightarrow> int" where
  "LocalTime z t = t + offset_at_utc z t"

definition UTC :: "zone \<Rightarrow> int \<Rightarrow> int" where
  "UTC z t = t - offset_at_local z t"

definition getDate :: "zone \<Rightarrow> int \<Rightarrow> int" where
  "getDate z t = DateFromTime (LocalTime z t)"

definition getMonth :: "zone \<Rightarrow> int \<Rightarrow> int" where
  "getMonth z t = MonthFromTime (LocalTime z t)"

definition getFullYear :: "zone \<Rightarrow> int \<Rightarrow> int" where
  "getFullYear z t = YearFromTime (LocalTime z t)"

definition setDate :: "zone \<Rightarrow> int \<Rightarrow> int \<Rightarrow> int" where
  "setDate z t dt =
     (let lt = LocalTime z t
      in UTC z (MakeDate (MakeDay (YearFromTime lt) (MonthFromTime lt) dt) (TimeWithinDay lt)))"

definition setMonth :: "zone \<Rightarrow> int \<Rightarrow> int \<Rightarrow> int" where
  "setMonth z t m =
     (let lt = LocalTime z t
      in UTC z (MakeDate (MakeDay (YearFromTime lt) m (DateFromTime lt)) (TimeWithinDay lt)))"

definition setFullYear :: "zone \<Rightarrow> int \<Rightarrow> int \<Rightarrow> int" where
  "setFullYear z t y =
     (let lt = LocalTime z t
      in UTC z (MakeDate (MakeDay y (MonthFromTime lt) (DateFromTime lt)) (TimeWithinDay lt)))"

section \<open>Entitlements: \<open>SubscriptionService\<close>\<close>

datatype duration = monthly | yearly

record SubscriptionPlan =
  plan_id :: string
  plan_name :: string
  price :: real
  currency :: string
  duration :: duration
  features :: "string list"
  trialDays :: "int option"

record SubscriptionStatus =
  isActive :: bool
  plan :: "SubscriptionPlan option"
  expiresAt :: "int option"
  isTrialActive :: "bool option"
  trialExpiresAt :: "int option"

text \<open>
  The two records kept in \<open>AsyncStorage\<close>, as \<open>JSON.parse\<close> returns them: under
  \<open>subscription_status\<close> what \<open>subscribeToPlan\<close> writes (\<open>isActive\<close>, \<open>plan\<close>,
  \<open>expiresAt\<close>), under \<open>trial_status\<close> what \<open>startFreeTrial\<close> writes.
\<close>

record stored_subscription =
  s_isActive :: bool
  s_plan :: "SubscriptionPlan option"
  s_expiresAt :: "int option"

record trial =
  planId :: string
  startedAt :: int
  t_expiresAt :: int
  used :: bool

text \<open>
  A stored string either parses to a record or makes \<open>JSON.parse\<close> throw.  A key with
  no item (\<open>getItem\<close> gives \<open>null\<close>) is \<open>None\<close>, and so is an empty string, which the
  tests \<^verbatim>\<open>if (stored)\<close> and \<^verbatim>\<open>if (existingTrial)\<close> treat alike.  Calls to
  \<open>AsyncStorage\<close> themselves are taken not to fail.
\<close>

datatype 'a item = Unparseable | Parsed 'a

record storage =
  subscription_status :: "stored_subscription item option"
  trial_status :: "trial item option"

record outcome =
  success :: bool
  error :: "string option"

definition premium_monthly :: SubscriptionPlan where
  "premium_monthly =
     \<lparr>plan_id = ''premium_monthly'', plan_name = ''Premium Monthly'', price = 9.99, currency = ''USD'',
      duration = monthly,
      features = [''Personalized AI Plans'', ''Advanced Analysis'', ''Unlimited Access'',
                  ''Premium Features'', ''Priority Support''],
      trialDays = Some 7\<rparr>"

definition premium_yearly :: SubscriptionPlan where
  "premium_yearly =
     \<lparr>plan_id = ''premium_yearly'', plan_name = ''Premium Yearly'', price = 99.99, currency = ''USD'',
      duration = yearly,
      features = [''Personalized AI Plans'', ''Advanced Analysis'', ''Unlimited Access'',
                  ''Premium Features'', ''Priority Support'', ''2 months free''],
      trialDays = Some 7\<rparr>"

definition plans :: "SubscriptionPlan list" where
  "plans = [premium_monthly, premium_yearly]"

definition getPlan :: "string \<Rightarrow> SubscriptionPlan option" where
  "getPlan pid = find (\<lambda>p. plan_id p = pid) plans"

definition inactive :: SubscriptionStatus where
  "inactive = \<lparr>isActive = False, plan = None, expiresAt = None, isTrialActive = None, trialExpiresAt = None\<rparr>"

text \<open>
  \<open>getSubscriptionStatus\<close> at clock reading \<open>now\<close> (the two readings of one call are
  taken to be the same instant).  A stored string that does not parse sends the call
  to its \<open>catch\<close>.
\<close>

definition getSubscriptionStatus :: "storage \<Rightarrow> int \<Rightarrow> SubscriptionStatus" where
  "getSubscriptionStatus st now =
     (case subscription_status st of
        Some Unparseable \<Rightarrow> inactive
      | stored \<Rightarrow>
         (case trial_status st of
            Some Unparseable \<Rightarrow> inactive
          | trialStored \<Rightarrow>
             (let status0 = (case stored of
                               Some (Parsed parsed) \<Rightarrow>
                                 \<lparr>isActive = s_isActive parsed, plan = s_plan parsed,
                                  expiresAt = s_expiresAt parsed, isTrialActive = None, trialExpiresAt = None\<rparr>
                             | _ \<Rightarrow> inactive);
                  status1 = (case trialStored of
                               Some (Parsed trialData) \<Rightarrow>
                                 (let trialActive = (now < t_expiresAt trialData)
                                  in status0\<lparr>isTrialActive := Some trialActive,
                                             trialExpiresAt := Some (t_expiresAt trialData),
                                             isActive := (if trialActive \<and> \<not> isActive status0 then True
                                                          else isActive status0)\<rparr>)
                             | _ \<Rightarrow> status0)
              in case expiresAt status1 of
                   Some e \<Rightarrow> if e \<le> now then status1\<lparr>isActive := False\<rparr> else status1
                 | None \<Rightarrow> status1)))"

text \<open>
  The three operations that write.  \<open>api_ok\<close> says whether \<open>simulateSubscriptionAPI\<close>
  returns (\<open>True\<close>) or throws (\<open>False\<close>); \<open>now\<close> is the clock after that call; \<open>z\<close> is
  the time zone of the device, in which the two operations that compute a date work.
  Each gives its result and the storage it leaves.
\<close>

definition startFreeTrial :: "zone \<Rightarrow> string \<Rightarrow> bool \<Rightarrow> int \<Rightarrow> storage \<Rightarrow> outcome \<times> storage" where
  "startFreeTrial z pid api_ok now st =
     (let failed = (\<lparr>success = False, error = Some ''Failed to start free trial. Please try again.''\<rparr>, st)
      in case trial_status st of
           Some Unparseable \<Rightarrow> failed
         | existingTrial \<Rightarrow>
            if (case existingTrial of Some (Parsed trialData) \<Rightarrow> used trialData | _ \<Rightarrow> False) then
              (\<lparr>success = False,
                error = Some ''Free trial has already been used. Please subscribe to continue using premium features.''\<rparr>,
               st)
            else
              (case getPlan pid of
                 None \<Rightarrow> (\<lparr>success = False, error = Some ''Trial not available for this plan.''\<rparr>, st)
               | Some p \<Rightarrow>
                  (case trialDays p of
                     None \<Rightarrow> (\<lparr>success = False, error = Some ''Trial not available for this plan.''\<rparr>, st)
                   | Some days \<Rightarrow>
                      if days = 0 then (\<lparr>success = False, error = Some ''Trial not available for this plan.''\<rparr>, st)
                      else if \<not> api_ok then failed
                      else
                        (let trialExpiresAt = setDate z now (getDate z now + days);
                             trialStatus = \<lparr>planId = pid, startedAt = now, t_expiresAt = trialExpiresAt, used = True\<rparr>
                         in (\<lparr>success = True, error = None\<rparr>,
                             st\<lparr>trial_status := Some (Parsed trialStatus)\<rparr>)))))"

definition subscribeToPlan :: "zone \<Rightarrow> string \<Rightarrow> bool \<Rightarrow> int \<Rightarrow> storage \<Rightarrow> outcome \<times> storage" where
  "subscribeToPlan z pid api_ok now st =
     (case getPlan pid of
        None \<Rightarrow> (\<lparr>success = False, error = Some ''Plan not found.''\<rparr>, st)
      | Some p \<Rightarrow>
         if \<not> api_ok then (\<lparr>success = False, error = Some ''Subscription failed. Please try again.''\<rparr>, st)
         else
           (let e = (if duration p = monthly then setMonth z now (getMonth z now + 1)
                     else setFullYear z now (getFullYear z now + 1))
            in (\<lparr>success = True, error = None\<rparr>,
                st\<lparr>subscription_status :=
                     Some (Parsed \<lparr>s_isActive = True, s_plan = Some p, s_expiresAt = Some e\<rparr>)\<rparr>)))"

definition cancelSubscription :: "bool \<Rightarrow> storage \<Rightarrow> outcome \<times> storage" where
  "cancelSubscription api_ok st =
     (if \<not> api_ok then (\<lparr>success = False, error = Some ''Failed to cancel subscription. Please try again.''\<rparr>, st)
      else (\<lparr>success = True, error = None\<rparr>, st\<lparr>subscription_status := None\<rparr>))"

text \<open>
  Calls of the service, with what the environment does in each (the time zone of the
  device, the result of the simulated API call, the clock), and the storage after a
  call and after a sequence of calls.
\<close>

datatype call =
    StartFreeTrial zone string bool int
  | SubscribeToPlan zone string bool int
  | CancelSubscription bool
  | GetSubscriptionStatus int

fun after :: "storage \<Rightarrow> call \<Rightarrow> storage" where
  "after st (StartFreeTrial z pid api_ok now) = snd (startFreeTrial z pid api_ok now st)"
| "after st (SubscribeToPlan z pid api_ok now) = snd (subscribeToPlan z pid api_ok now st)"
| "after st (CancelSubscription api_ok) = snd (cancelSubscription api_ok st)"
| "after st (GetSubscriptionStatus now) = st"

definition after_all :: "storage \<Rightarrow> call list \<Rightarrow> storage" where
  "after_all st cs = foldl after st cs"

definition trial_used :: "storage \<Rightarrow> bool" where
  "trial_used st = (case trial_status st of Some (Parsed trialData) \<Rightarrow> used trialData | _ \<Rightarrow> False)"

definition already_used :: outcome where
  "already_used =
     \<lparr>success = False,
      error = Some ''Free trial has already been used. Please subscribe to continue using premium features.''\<rparr>"

text \<open>The reading of \<open>isActive\<close> that the specification gives for a paid record and a trial record.\<close>

definition claimed_isActive :: "stored_subscription \<Rightarrow> trial \<Rightarrow> int \<Rightarrow> bool" where
  "claimed_isActive paid tr now =
     ((case s_expiresAt paid of None \<Rightarrow> True | Some e \<Rightarrow> now < e) \<or> now < t_expiresAt tr)"

text \<open>The length of month \<open>m\<close> (0 to 11) in days.\<close>

definition DaysInMonth :: "bool \<Rightarrow> int \<Rightarrow> int" where
  "DaysInMonth leap m = month_start leap (m + 1) - month_start leap m"

text \<open>
  A zone whose offsets never differ by more than \<open>S\<close> milliseconds, between any UTC
  time and any local time.
\<close>

definition offsets_within :: "zone \<Rightarrow> int \<Rightarrow> bool" where
  "offsets_within z S = (\<forall>t u. \<bar>offset_at_utc z t - offset_at_local z u\<bar> \<le> S)"

definition msPerHour :: int where
  "msPerHour = 3600000"

text \<open>
  Two zones: UTC, and New York in 2025, five hours behind UTC and four hours behind
  between 2025-03-09T07:00Z and 2025-11-02T06:00Z.
\<close>

definition utc :: zone where
  "utc = \<lparr>offset_at_utc = (\<lambda>t. 0), offset_at_local = (\<lambda>t. 0)\<rparr>"

definition new_york_2025 :: zone where
  "new_york_2025 =
     \<lparr>offset_at_utc = (\<lambda>t. if 1741503600000 \<le> t \<and> t < 1762063200000
                            then - 4 * msPerHour else - 5 * msPerHour),
      offset_at_local = (\<lambda>t. if 1741489200000 \<le> t \<and> t < 1762048800000
                              then - 4 * msPerHour else - 5 * msPerHour)\<rparr>"

text \<open>A store with nothing in it.\<close>

definition empty_storage :: storage where
  "empty_storage = \<lparr>subscription_status = None, trial_status = None\<rparr>"

text \<open>
  A monthly plan bought on 2023-11-14T22:13:20Z, and a free trial started on
  2023-12-15T00:26:40Z, after the plan has lapsed, on a device in UTC: the calls, the
  store they leave, and the two records in it.
\<close>

definition lapsed_then_trial :: storage where
  "lapsed_then_trial =
     after_all empty_storage
       [SubscribeToPlan utc ''premium_monthly'' True 1700000000000,
        StartFreeTrial utc ''premium_monthly'' True 1702600000000]"

definition lapsed_plan :: stored_subscription where
  "lapsed_plan = \<lparr>s_isActive = True, s_plan = Some premium_monthly, s_expiresAt = Some 1702592000000\<rparr>"

definition running_trial :: trial where
  "running_trial =
     \<lparr>planId = ''premium_monthly'', startedAt = 1702600000000, t_expiresAt = 1703204800000, used = True\<rparr>"

section \<open>Remote AI gateway client: \<open>AIService\<close>\<close>

text \<open>
  JavaScript values as far as the parsers meet them: what \<open>JSON.parse\<close> can return,
  and \<open>undefined\<close> for a property that is not there.  Numbers are reals (a JSON text
  holds no \<open>NaN\<close> and no infinity).  The fields of a result hold such values, because
  the parsers copy fields of the completion into the result without checking them.
\<close>

datatype js =
    Undefined
  | Null
  | Bool bool
  | Num real
  | Str string
  | Arr "js list"
  | Obj "(string \<times> js) list"

text \<open>
  \<open>parsed.key\<close> for the keys the parsers read, on a value that is not \<open>null\<close>: an
  object gives the property or \<open>undefined\<close>; an array, a string, a number or a boolean
  has none of these keys.  (On \<open>null\<close> the access throws; the parsers handle that
  case before they call \<open>field\<close>.)
\<close>

fun field :: "js \<Rightarrow> string \<Rightarrow> js" where
  "field (Obj kvs) k = (case map_of kvs k of None \<Rightarrow> Undefined | Some v \<Rightarrow> v)"
| "field _ k = Undefined"

fun truthy :: "js \<Rightarrow> bool" where
  "truthy Undefined = False"
| "truthy Null = False"
| "truthy (Bool b) = b"
| "truthy (Num x) = (x \<noteq> 0)"
| "truthy (Str s) = (s \<noteq> [])"
| "truthy (Arr _) = True"
| "truthy (Obj _) = True"

text \<open>\<open>a || b\<close>, \<open>typeof v === 'number'\<close>, \<open>typeof v === 'string'\<close>, \<open>Array.isArray(v)\<close>.\<close>

definition or_else :: "js \<Rightarrow> js \<Rightarrow> js" where
  "or_else a b = (if truthy a then a else b)"

fun is_number :: "js \<Rightarrow> bool" where
  "is_number (Num _) = True"
| "is_number _ = False"

fun is_string :: "js \<Rightarrow> bool" where
  "is_string (Str _) = True"
| "is_string _ = False"

fun isArray :: "js \<Rightarrow> bool" where
  "isArray (Arr _) = True"
| "isArray _ = False"

definition strings :: "string list \<Rightarrow> js" where
  "strings xs = Arr (map Str xs)"

record GlowAnalysisResult =
  overallScore :: js
  skinPotential :: js
  skinQuality :: js
  jawlineScore :: js
  skinTone :: js
  skinType :: js
  brightness :: js
  hydration :: js
  symmetryScore :: js
  glowScore :: js
  improvements :: js
  recommendations :: js
  tips :: js
  aiTips :: js

record OutfitAnalysisResult =
  outfitScore :: js
  colorMatchScore :: js
  styleScore :: js
  compatibleColors :: js
  outfit_tips :: js
  eventAppropriate :: bool
  seasonalMatch :: bool

text \<open>
  The environment of one call.  \<open>rnd i\<close> is what the \<open>i\<close>-th call of \<open>Math.random\<close>
  returns.  The completion of the gateway is a text that \<open>JSON.parse\<close> rejects or
  turns into a value.  The call to the gateway fails (a rejected or aborted \<open>fetch\<close>,
  or a body that is not JSON), answers with a status that is not ok, or delivers a
  completion.  The upload and the encoding of the image can throw.  Reporting an error
  to \<open>errorHandler\<close> and logging return normally.  The data of the vision service
  goes into the prompt only and is left out.
\<close>

datatype completion = NoParse | Json js

datatype llm = Failed | NotOk | Completion completion

record ai_env =
  upload_throws :: bool
  encode_throws :: bool
  reply :: llm

datatype ai_error = TypeError | InvalidFormat | SyntaxError | UploadFailed

text \<open>\<open>Math.floor(Math.random() * n) + base\<close> and \<open>xs[Math.floor(Math.random() * xs.length)]\<close>.\<close>

definition random_score :: "real \<Rightarrow> int \<Rightarrow> int \<Rightarrow> js" where
  "random_score r n base = Num (of_int (\<lfloor>r * of_int n\<rfloor> + base))"

definition pick :: "string list \<Rightarrow> real \<Rightarrow> js" where
  "pick xs r =
     (let i = \<lfloor>r * of_nat (length xs)\<rfloor>
      in if 0 \<le> i \<and> i < int (length xs) then Str (xs ! nat i) else Undefined)"

definition mock_aiTips :: "string list" where
  "mock_aiTips =
     [''Hydrate twice daily with hyaluronic acid serum for plumper skin'',
      ''Use sunscreen every morning to prevent premature aging'',
      ''Add more Omega-3s to your diet for improved skin elasticity'',
      ''Try facial massage for 5 minutes daily to boost circulation'',
      ''Get 7-8 hours of quality sleep for optimal skin recovery'']"

definition mock_improvements :: "string list" where
  "mock_improvements =
     [''Increase daily water intake to 8-10 glasses for better hydration'',
      ''Incorporate vitamin C serum in morning routine for brighter skin'',
      ''Use a gentle exfoliant 2x per week to improve texture'',
      ''Apply a hydrating face mask weekly for deep moisture'']"

text \<open>The arrows in the recommendations of the source are written \<open>->\<close> here.\<close>

definition mock_recommendations :: "string list" where
  "mock_recommendations =
     [''Morning: Gentle cleanser -> Vitamin C serum -> Moisturizer -> SPF 30+'',
      ''Evening: Double cleanse -> Retinol (2x/week) -> Hydrating serum -> Night cream'',
      ''Weekly: Gentle exfoliation + Deep hydrating mask'',
      ''Monthly: Professional facial or at-home enzyme treatment'']"

definition getMockGlowAnalysis :: "(nat \<Rightarrow> real) \<Rightarrow> GlowAnalysisResult" where
  "getMockGlowAnalysis rnd =
     (let overall = random_score (rnd 0) 30 70
      in \<lparr>overallScore = overall,
          skinPotential = pick [''High'', ''Medium'', ''Low''] (rnd 1),
          skinQuality = pick [''Excellent'', ''Good'', ''Fair'', ''Needs Improvement''] (rnd 2),
          jawlineScore = random_score (rnd 3) 25 70,
          skinTone = pick [''Warm Beige'', ''Cool Ivory'', ''Olive Medium'', ''Deep Caramel'',
                           ''Golden Tan'', ''Porcelain Fair''] (rnd 4),
          skinType = pick [''Normal'', ''Dry'', ''Oily'', ''Combination'', ''Sensitive''] (rnd 5),
          brightness = random_score (rnd 6) 30 65,
          hydration = random_score (rnd 7) 40 55,
          symmetryScore = random_score (rnd 8) 20 75,
          glowScore = overall,
          improvements = strings mock_improvements,
          recommendations = strings mock_recommendations,
          tips = strings (take 3 mock_aiTips),
          aiTips = strings mock_aiTips\<rparr>)"

text \<open>
  The two object literals that \<open>parseGlowAnalysis\<close> returns, for the comprehensive
  format and for the legacy format.
\<close>

definition comprehensive_result :: "js \<Rightarrow> GlowAnalysisResult" where
  "comprehensive_result parsed =
     \<lparr>overallScore = field parsed ''overallScore'',
      skinPotential = or_else (field parsed ''skinPotential'') (Str ''Medium''),
      skinQuality = or_else (field parsed ''skinQuality'') (Str ''Good''),
      jawlineScore = or_else (field parsed ''jawlineScore'') (Num 75),
      skinTone = field parsed ''skinTone'',
      skinType = or_else (field parsed ''skinType'') (Str ''Normal''),
      brightness = or_else (field parsed ''brightness'') (Num 75),
      hydration = or_else (field parsed ''hydration'') (Num 70),
      symmetryScore = or_else (field parsed ''symmetryScore'') (Num 85),
      glowScore = field parsed ''overallScore'',
      improvements = or_else (field parsed ''improvements'') (Arr []),
      recommendations = or_else (field parsed ''recommendations'') (Arr []),
      tips = field parsed ''aiTips'',
      aiTips = field parsed ''aiTips''\<rparr>"

definition legacy_result :: "js \<Rightarrow> GlowAnalysisResult" where
  "legacy_result parsed =
     \<lparr>overallScore = field parsed ''glowScore'',
      skinPotential = Str ''Medium'',
      skinQuality = Str ''Good'',
      jawlineScore = Num 75,
      skinTone = or_else (field parsed ''skinTone'') (Str ''Medium''),
      skinType = or_else (field parsed ''skinType'') (Str ''Normal''),
      brightness = or_else (field parsed ''brightness'') (Num 75),
      hydration = or_else (field parsed ''hydration'') (Num 70),
      symmetryScore = or_else (field parsed ''symmetry'') (Num 85),
      glowScore = field parsed ''glowScore'',
      improvements = or_else (field parsed ''improvements'') (Arr []),
      recommendations = or_else (field parsed ''recommendations'') (Arr []),
      tips = or_else (field parsed ''tips'') (or_else (field parsed ''improvements'') (Arr [])),
      aiTips = or_else (field parsed ''tips'') (or_else (field parsed ''improvements'') (Arr []))\<rparr>"

text \<open>
  The \<open>try\<close> block of \<open>parseGlowAnalysis\<close>: \<open>Inl\<close> is what it throws (\<open>JSON.parse\<close>
  on a text that is not JSON, the first property access on \<open>null\<close>, or the
  \<open>throw\<close> at its end), caught by the \<open>catch\<close> of \<open>parseGlowAnalysis\<close>, which
  returns the mock.
\<close>

definition parseGlowAnalysis_try :: "completion \<Rightarrow> ai_error + GlowAnalysisResult" where
  "parseGlowAnalysis_try c =
     (case c of
        NoParse \<Rightarrow> Inl SyntaxError
      | Json parsed \<Rightarrow>
          if parsed = Null then Inl TypeError
          else if is_number (field parsed ''overallScore'') \<and> is_string (field parsed ''skinTone'')
             \<and> isArray (field parsed ''aiTips'') then Inr (comprehensive_result parsed)
          else if is_number (field parsed ''glowScore'') then Inr (legacy_result parsed)
          else Inl InvalidFormat)"

definition parseGlowAnalysis :: "(nat \<Rightarrow> real) \<Rightarrow> completion \<Rightarrow> GlowAnalysisResult" where
  "parseGlowAnalysis rnd c =
     (case parseGlowAnalysis_try c of Inr r \<Rightarrow> r | Inl _ \<Rightarrow> getMockGlowAnalysis rnd)"

definition getAIGlowAnalysis :: "(nat \<Rightarrow> real) \<Rightarrow> ai_env \<Rightarrow> GlowAnalysisResult" where
  "getAIGlowAnalysis rnd env =
     (if encode_throws env then getMockGlowAnalysis rnd
      else case reply env of
             Failed \<Rightarrow> getMockGlowAnalysis rnd
           | NotOk \<Rightarrow> getMockGlowAnalysis rnd
           | Completion c \<Rightarrow> parseGlowAnalysis rnd c)"

text \<open>
  \<open>analyzeGlow\<close>: its \<open>try\<close> block and the whole method.  \<open>Inl\<close> would be an error
  that reaches the caller.
\<close>

definition analyzeGlow_try :: "(nat \<Rightarrow> real) \<Rightarrow> ai_env \<Rightarrow> ai_error + GlowAnalysisResult" where
  "analyzeGlow_try rnd env =
     (if upload_throws env then Inl UploadFailed else Inr (getAIGlowAnalysis rnd env))"

definition analyzeGlow :: "(nat \<Rightarrow> real) \<Rightarrow> ai_env \<Rightarrow> ai_error + GlowAnalysisResult" where
  "analyzeGlow rnd env =
     (case analyzeGlow_try rnd env of Inr r \<Rightarrow> Inr r | Inl _ \<Rightarrow> Inr (getMockGlowAnalysis rnd))"

definition getMockOutfitAnalysis :: "(nat \<Rightarrow> real) \<Rightarrow> OutfitAnalysisResult" where
  "getMockOutfitAnalysis rnd =
     \<lparr>outfitScore = random_score (rnd 0) 30 70,
      colorMatchScore = random_score (rnd 1) 30 70,
      styleScore = random_score (rnd 2) 30 70,
      compatibleColors = strings [''#FF6B98'', ''#9D71E8'', ''#4CAF50'', ''#2196F3'', ''#FFD166''],
      outfit_tips = strings
        [''Try adding a statement accessory to elevate this look'',
         ''This color palette works well with your skin tone'',
         ''Consider a different shoe style for better proportion'',
         ''A structured blazer would add sophistication''],
      eventAppropriate = (rnd 3 > 0.3),
      seasonalMatch = (rnd 4 > 0.2)\<rparr>"

definition outfit_result :: "js \<Rightarrow> OutfitAnalysisResult" where
  "outfit_result parsed =
     \<lparr>outfitScore = field parsed ''outfitScore'',
      colorMatchScore = or_else (field parsed ''colorMatchScore'') (Num 75),
      styleScore = or_else (field parsed ''styleScore'') (Num 75),
      compatibleColors = or_else (field parsed ''compatibleColors'')
                           (strings [''#FF6B98'', ''#9D71E8'', ''#4CAF50'']),
      outfit_tips = field parsed ''tips'',
      eventAppropriate = (field parsed ''eventAppropriate'' \<noteq> Bool False),
      seasonalMatch = (field parsed ''seasonalMatch'' \<noteq> Bool False)\<rparr>"

definition parseOutfitAnalysis_try :: "completion \<Rightarrow> ai_error + OutfitAnalysisResult" where
  "parseOutfitAnalysis_try c =
     (case c of
        NoParse \<Rightarrow> Inl SyntaxError
      | Json parsed \<Rightarrow>
          if parsed = Null then Inl TypeError
          else if is_number (field parsed ''outfitScore'') \<and> isArray (field parsed ''tips'')
          then Inr (outfit_result parsed)
          else Inl InvalidFormat)"

definition parseOutfitAnalysis :: "(nat \<Rightarrow> real) \<Rightarrow> completion \<Rightarrow> OutfitAnalysisResult" where
  "parseOutfitAnalysis rnd c =
     (case parseOutfitAnalysis_try c of Inr r \<Rightarrow> r | Inl _ \<Rightarrow> getMockOutfitAnalysis rnd)"

definition getAIOutfitAnalysis :: "(nat \<Rightarrow> real) \<Rightarrow> ai_env \<Rightarrow> OutfitAnalysisResult" where
  "getAIOutfitAnalysis rnd env =
     (if encode_throws env then getMockOutfitAnalysis rnd
      else case reply env of
             Failed \<Rightarrow> getMockOutfitAnalysis rnd
           | NotOk \<Rightarrow> getMockOutfitAnalysis rnd
           | Completion c \<Rightarrow> parseOutfitAnalysis rnd c)"

definition analyzeOutfit_try :: "(nat \<Rightarrow> real) \<Rightarrow> ai_env \<Rightarrow> ai_error + OutfitAnalysisResult" where
  "analyzeOutfit_try rnd env =
     (if upload_throws env then Inl UploadFailed else Inr (getAIOutfitAnalysis rnd env))"

definition analyzeOutfit :: "(nat \<Rightarrow> real) \<Rightarrow> ai_env \<Rightarrow> ai_error + OutfitAnalysisResult" where
  "analyzeOutfit rnd env =
     (case analyzeOutfit_try rnd env of Inr r \<Rightarrow> Inr r | Inl _ \<Rightarrow> Inr (getMockOutfitAnalysis rnd))"

text \<open>
  Vocabulary for the properties of results: a score in the range 0 to 100, a list
  that is there, a list with an element, draws of \<open>Math.random\<close> in the unit interval,
  and a completion that is malformed: \<open>JSON.parse\<close> rejects it, or it is \<open>null\<close>, or
  it has neither the fields of the comprehensive format nor those of the legacy format
  (for an outfit: not the fields of its one format).
\<close>

fun score_in_range :: "js \<Rightarrow> bool" where
  "score_in_range (Num x) = (0 \<le> x \<and> x \<le> 100)"
| "score_in_range _ = False"

fun nonempty_list :: "js \<Rightarrow> bool" where
  "nonempty_list (Arr xs) = (xs \<noteq> [])"
| "nonempty_list _ = False"

definition present :: "js \<Rightarrow> bool" where
  "present v = (v \<noteq> Undefined \<and> v \<noteq> Null)"

definition glow_scores_in_range :: "GlowAnalysisResult \<Rightarrow> bool" where
  "glow_scores_in_range r =
     (score_in_range (overallScore r) \<and> score_in_range (jawlineScore r) \<and> score_in_range (brightness r)
      \<and> score_in_range (hydration r) \<and> score_in_range (symmetryScore r) \<and> score_in_range (glowScore r))"

definition outfit_scores_in_range :: "OutfitAnalysisResult \<Rightarrow> bool" where
  "outfit_scores_in_range r =
     (score_in_range (outfitScore r) \<and> score_in_range (colorMatchScore r) \<and> score_in_range (styleScore r))"

definition glow_lists_present :: "GlowAnalysisResult \<Rightarrow> bool" where
  "glow_lists_present r =
     (present (improvements r) \<and> present (recommendations r) \<and> present (tips r) \<and> present (aiTips r))"

definition glow_lists_are_arrays :: "GlowAnalysisResult \<Rightarrow> bool" where
  "glow_lists_are_arrays r =
     (isArray (improvements r) \<and> isArray (recommendations r) \<and> isArray (tips r) \<and> isArray (aiTips r))"

definition outfit_lists_present :: "OutfitAnalysisResult \<Rightarrow> bool" where
  "outfit_lists_present r = (present (compatibleColors r) \<and> present (outfit_tips r))"

definition outfit_lists_are_arrays :: "OutfitAnalysisResult \<Rightarrow> bool" where
  "outfit_lists_are_arrays r = (isArray (compatibleColors r) \<and> isArray (outfit_tips r))"

definition unit_draws :: "(nat \<Rightarrow> real) \<Rightarrow> bool" where
  "unit_draws rnd = (\<forall>i. 0 \<le> rnd i \<and> rnd i < 1)"

definition malformed_glow :: "completion \<Rightarrow> bool" where
  "malformed_glow c =
     (case c of
        NoParse \<Rightarrow> True
      | Json v \<Rightarrow>
          v = Null
          \<or> \<not> ((is_number (field v ''overallScore'') \<and> is_string (field v ''skinTone'') \<and> isArray (field v ''aiTips''))
                \<or> is_number (field v ''glowScore'')))"

definition malformed_outfit :: "completion \<Rightarrow> bool" where
  "malformed_outfit c =
     (case c of
        NoParse \<Rightarrow> True
      | Json v \<Rightarrow> v = Null \<or> \<not> (is_number (field v ''outfitScore'') \<and> isArray (field v ''tips'')))"

text \<open>
  The score fields and the list fields that the parsers read from a completion, and a
  completion whose fields of these names, where it has them with a truthy value, hold
  a number from 0 to 100 or an array: the parsers check no more than the type of
  \<open>overallScore\<close>, \<open>glowScore\<close>, \<open>outfitScore\<close>, \<open>skinTone\<close>, \<open>aiTips\<close> and \<open>tips\<close>.
\<close>

definition score_keys :: "string list" where
  "score_keys =
     [''overallScore'', ''jawlineScore'', ''brightness'', ''hydration'', ''symmetryScore'', ''symmetry'',
      ''glowScore'', ''outfitScore'', ''colorMatchScore'', ''styleScore'']"

definition list_keys :: "string list" where
  "list_keys = [''improvements'', ''recommendations'', ''tips'', ''aiTips'', ''compatibleColors'']"

definition fields_in_range :: "js \<Rightarrow> bool" where
  "fields_in_range v =
     ((\<forall>k \<in> set score_keys. truthy (field v k) \<longrightarrow> score_in_range (field v k))
      \<and> (\<forall>k \<in> set list_keys. truthy (field v k) \<longrightarrow> isArray (field v k)))"

definition reply_in_range :: "llm \<Rightarrow> bool" where
  "reply_in_range l = (case l of Completion (Json v) \<Rightarrow> fields_in_range v | _ \<Rightarrow> True)"

text \<open>Concrete draws, completions and environments.\<close>

definition half :: "nat \<Rightarrow> real" where
  "half i = 1 / 2"

definition env_with :: "completion \<Rightarrow> ai_env" where
  "env_with c = \<lparr>upload_throws = False, encode_throws = False, reply = Completion c\<rparr>"

definition glow_500 :: js where
  "glow_500 = Obj [(''overallScore'', Num 500), (''skinTone'', Str ''Warm Beige''), (''aiTips'', Arr [])]"

definition glow_82 :: js where
  "glow_82 =
     Obj [(''overallScore'', Num 82), (''skinTone'', Str ''Warm Beige''),
          (''aiTips'', Arr [Str ''Use sunscreen every morning'']), (''hydration'', Num 64)]"

definition outfit_88 :: js where
  "outfit_88 = Obj [(''outfitScore'', Num 88), (''tips'', Arr [Str ''Add a belt''])]"

subsection \<open>The coaching plan\<close>

datatype TaskType = skincare | hydration | sleep | exercise | nutrition

record DailyTask =
  task_id :: string
  day :: int
  title :: string
  description :: string
  task_type :: TaskType
  completed :: bool
  reminder :: "string option"

record CoachingPlan =
  cp_id :: string
  goal :: string
  cp_duration :: int
  dailyTasks :: "DailyTask list"
  cp_tips :: "string list"
  expectedResults :: "string list"

text \<open>
  The plan that \<open>parseCoachingPlan\<close> builds from a completion it accepts: the same
  object, with the values of the completion as they came.
\<close>

record completion_plan =
  from_id :: string
  from_goal :: string
  from_duration :: js
  from_dailyTasks :: js
  from_tips :: js
  from_expectedResults :: js

datatype plan_result = FromCompletion completion_plan | Fallback CoachingPlan

text \<open>
  One round of the loop of \<open>getMockCoachingPlan\<close>: the three tasks of the day and,
  when \<open>day % 3 === 0\<close>, the exercise task pushed after them.
\<close>

definition tasks_of_day :: "int \<Rightarrow> DailyTask list" where
  "tasks_of_day d =
     [\<lparr>task_id = ''task-'' @ string_of_int d @ ''-1'', day = d, title = ''Morning Skincare Routine'',
       description = ''Complete your morning skincare routine with cleanser, serum, and SPF'',
       task_type = skincare, completed = False, reminder = None\<rparr>,
      \<lparr>task_id = ''task-'' @ string_of_int d @ ''-2'', day = d, title = ''Hydration Goal'',
       description = ''Drink at least 8 glasses of water throughout the day'',
       task_type = hydration, completed = False, reminder = None\<rparr>,
      \<lparr>task_id = ''task-'' @ string_of_int d @ ''-3'', day = d, title = ''Beauty Sleep'',
       description = ''Get 7-8 hours of quality sleep for skin recovery'',
       task_type = sleep, completed = False, reminder = None\<rparr>]
     @ (if d mod 3 = 0
        then [\<lparr>task_id = ''task-'' @ string_of_int d @ ''-4'', day = d, title = ''Light Exercise'',
                description = ''20 minutes of light exercise to boost circulation'',
                task_type = exercise, completed = False, reminder = None\<rparr>]
        else [])"

function mock_tasks_loop :: "int \<Rightarrow> DailyTask list \<Rightarrow> DailyTask list" where
  "mock_tasks_loop d tasks = (if d \<le> 30 then mock_tasks_loop (d + 1) (tasks @ tasks_of_day d) else tasks)"
  by pat_completeness auto
termination
  by (relation "measure (\<lambda>(d, tasks). nat (31 - d))") auto

declare mock_tasks_loop.simps [simp del]

definition getMockCoachingPlan :: "string \<Rightarrow> int \<Rightarrow> CoachingPlan" where
  "getMockCoachingPlan g now =
     \<lparr>cp_id = ''plan-'' @ string_of_int now,
      goal = g,
      cp_duration = 30,
      dailyTasks = mock_tasks_loop 1 [],
      cp_tips = [''Consistency is key - stick to your routine daily'',
                 ''Take progress photos weekly to track improvements'',
                 ''Listen to your skin and adjust products if needed'',
                 ''Stay hydrated and eat a balanced diet''],
      expectedResults = [''Improved skin texture and hydration'',
                         ''More even skin tone'',
                         ''Reduced appearance of fine lines'',
                         ''Overall healthier, glowing complexion'']\<rparr>"

definition parseCoachingPlan_try :: "completion \<Rightarrow> string \<Rightarrow> int \<Rightarrow> ai_error + completion_plan" where
  "parseCoachingPlan_try c g now =
     (case c of
        NoParse \<Rightarrow> Inl SyntaxError
      | Json parsed \<Rightarrow>
          if parsed = Null then Inl TypeError
          else if isArray (field parsed ''dailyTasks'') \<and> isArray (field parsed ''tips'') then
            Inr \<lparr>from_id = ''plan-'' @ string_of_int now,
                 from_goal = g,
                 from_duration = or_else (field parsed ''duration'') (Num 30),
                 from_dailyTasks = field parsed ''dailyTasks'',
                 from_tips = field parsed ''tips'',
                 from_expectedResults = or_else (field parsed ''expectedResults'') (Arr [])\<rparr>
          else Inl InvalidFormat)"

definition parseCoachingPlan :: "completion \<Rightarrow> string \<Rightarrow> int \<Rightarrow> plan_result" where
  "parseCoachingPlan c g now =
     (case parseCoachingPlan_try c g now of
        Inr p \<Rightarrow> FromCompletion p
      | Inl _ \<Rightarrow> Fallback (getMockCoachingPlan g now))"

text \<open>
  \<open>generateCoachingPlan\<close>: \<open>currentGlowScore\<close> goes into the prompt only; \<open>now\<close> is
  \<open>Date.now()\<close> when the plan is built.
\<close>

definition generateCoachingPlan :: "string \<Rightarrow> real \<Rightarrow> int \<Rightarrow> llm \<Rightarrow> plan_result" where
  "generateCoachingPlan g currentGlowScore now l =
     (case l of
        Failed \<Rightarrow> Fallback (getMockCoachingPlan g now)
      | NotOk \<Rightarrow> Fallback (getMockCoachingPlan g now)
      | Completion c \<Rightarrow> parseCoachingPlan c g now)"

text \<open>The tasks of a plan on a day, and those of them that are exercise.\<close>

definition tasks_on :: "CoachingPlan \<Rightarrow> int \<Rightarrow> DailyTask list" where
  "tasks_on p d = filter (\<lambda>t. day t = d) (dailyTasks p)"

definition exercise_on :: "CoachingPlan \<Rightarrow> int \<Rightarrow> DailyTask list" where
  "exercise_on p d = filter (\<lambda>t. task_type t = exercise) (tasks_on p d)"

section \<open>Properties of the transport\<close>

lemma catch_block_retryable: "isRetryable (catch_block x)"
  by (cases x) (simp_all add: catch_block_def createError_def isRetryableError_def)

lemma loop_not_ok:
  "0 \<le> a \<Longrightarrow> a \<le> rts \<Longrightarrow> all_not_ok fetch rq a rts \<Longrightarrow>
   trace (makeRequest_loop fetch rq rts rd a le tr) =
           tr @ concat (map (\<lambda>n. [Fetch rq, Delay (rd * 2 ^ n)]) [nat a..<nat rts]) @ [Fetch rq]"
proof (induction "nat (rts - a)" arbitrary: a le tr)
  case 0
  then have eq: "a = rts" by simp
  from "0.prems" eq obtain r where r: "fetch rq rts = Resolved r" "\<not> ok r"
    unfolding all_not_ok_def by auto
  show ?case unfolding eq
    by (subst makeRequest_loop.simps) (simp add: r try_block_def Let_def catch_block_retryable)
next
  case (Suc k)
  then have lt: "a < rts" by simp
  from Suc.prems obtain r where r: "fetch rq a = Resolved r" "\<not> ok r"
    unfolding all_not_ok_def by auto
  have k: "k = nat (rts - (a + 1))" using Suc.hyps(2) by simp
  have rest: "all_not_ok fetch rq (a + 1) rts"
    using Suc.prems(3) unfolding all_not_ok_def by auto
  have IH: "trace (makeRequest_loop fetch rq rts rd (a + 1) le' tr') =
           tr' @ concat (map (\<lambda>n. [Fetch rq, Delay (rd * 2 ^ n)]) [nat (a + 1)..<nat rts]) @ [Fetch rq]"
    for le' tr'
    using Suc.hyps(1)[OF k _ _ rest] Suc.prems(1) lt by simp
  have up: "[nat a..<nat rts] = nat a # [nat (a + 1)..<nat rts]"
    using lt Suc.prems(1) by (simp add: upt_conv_Cons nat_add_distrib)
  show ?case
    apply (subst makeRequest_loop.simps)
    using lt r by (auto simp add: try_block_def Let_def catch_block_retryable IH up)
qed

lemma loop_not_ok_result:
  "0 \<le> a \<Longrightarrow> a \<le> rts \<Longrightarrow> all_not_ok fetch rq a rts \<Longrightarrow> fetch rq rts = Resolved r \<Longrightarrow>
   result (makeRequest_loop fetch rq rts rd a le tr) =
     Inl (Throw (createError (http_error_message r) None (Some ''NETWORK_ERROR'')))"
proof (induction "nat (rts - a)" arbitrary: a le tr)
  case 0
  then have eq: "a = rts" by simp
  from "0.prems" eq have r: "\<not> ok r"
    unfolding all_not_ok_def by auto
  show ?case unfolding eq
    by (subst makeRequest_loop.simps)
       (simp add: r "0.prems" try_block_def Let_def catch_block_def createError_def
          isRetryableError_def http_error_message_def)
next
  case (Suc k)
  then have lt: "a < rts" by simp
  from Suc.prems obtain r' where r: "fetch rq a = Resolved r'" "\<not> ok r'"
    unfolding all_not_ok_def by auto
  have k: "k = nat (rts - (a + 1))" using Suc.hyps(2) by simp
  have rest: "all_not_ok fetch rq (a + 1) rts"
    using Suc.prems(3) unfolding all_not_ok_def by auto
  note IH = Suc.hyps(1)[OF k _ _ rest Suc.prems(4)]
  show ?case
    apply (subst makeRequest_loop.simps)
    using lt r Suc.prems(1) by (auto simp add: try_block_def Let_def catch_block_retryable IH)
qed

lemma filter_fetch_backoff:
  "filter is_fetch (concat (map (\<lambda>k. [Fetch rq, Delay (rd * 2 ^ k)]) ns)) = map (\<lambda>_. Fetch rq) ns"
  by (induction ns) simp_all

lemma delays_backoff_aux:
  "concat (map (\<lambda>e. case e of Fetch _ \<Rightarrow> [] | Delay d \<Rightarrow> [d])
     (concat (map (\<lambda>k. [Fetch rq, Delay (rd * 2 ^ k)]) ns))) = map (\<lambda>k. rd * 2 ^ k) ns"
  by (induction ns) simp_all

lemma makeRequest_not_ok_trace:
  assumes "0 \<le> retries_of cfg config"
    and "\<And>rq. all_not_ok fetch rq 0 (retries_of cfg config)"
  shows "trace (makeRequest cfg fetch url options config) =
           backoff_trace \<lparr>req_url = url, req_method = http_method options, req_body = init_body options,
                req_headers = requestHeaders cfg config\<rparr> (retryDelay_of cfg config) (nat (retries_of cfg config))"
  using loop_not_ok[where a = 0, OF _ assms(1) assms(2)] by (simp add: makeRequest_def backoff_trace_def)

lemma cfg0_defaults: "retries_of cfg0 None = 3" "retryDelay_of cfg0 None = 1000"
  by (simp_all add: retries_of_def retryDelay_of_def cfg0_def)

lemma upt_3: "[0..<3] = [0, 1, 2]"
  by (simp add: upt_rec)



text \<open>
  C5.  The code at a failing input: the server answers 404 to every attempt and the
  retry count is 3.  \<open>isRetryableError\<close> classifies 404 as not retryable, yet the
  \<open>throw\<close> of that error sits inside the \<open>try\<close> whose \<open>catch\<close> classifies it
  again without its status, so \<open>makeRequest\<close> fetches four times, waits 1000, 2000
  and 4000 milliseconds in between, and throws an error marked retryable.
\<close>

theorem client_error_is_retried:
  "\<not> isRetryableError (Some 404) None
   \<and> attempts (makeRequest cfg0 (always 404 ''Not Found'') ''https://api/x'' get_x None) = 4
   \<and> delays (makeRequest cfg0 (always 404 ''Not Found'') ''https://api/x'' get_x None) = [1000, 2000, 4000]
   \<and> result (makeRequest cfg0 (always 404 ''Not Found'') ''https://api/x'' get_x None)
        = Inl (Throw \<lparr>message = ''HTTP 404: Not Found'', status = None, code = Some ''NETWORK_ERROR'',
                         isNetworkError = True, isRetryable = True\<rparr>)"
proof -
  let ?run = "makeRequest cfg0 (always 404 ''Not Found'') ''https://api/x'' get_x None"
  have nok: "all_not_ok (always 404 ''Not Found'') rq 0 3" for rq
    by (simp add: all_not_ok_def always_def ok_def)
  have tr: "trace ?run = backoff_trace \<lparr>req_url = ''https://api/x'', req_method = ''GET'', req_body = None,
                req_headers = requestHeaders cfg0 None\<rparr> 1000 3"
    using makeRequest_not_ok_trace[of cfg0 None "always 404 ''Not Found''" "''https://api/x''" get_x] nok
    by (simp add: cfg0_defaults get_x_def)
  have a: "attempts ?run = 4"
    by (simp add: attempts_def tr backoff_trace_def filter_fetch_backoff)
  have d: "delays ?run = [1000, 2000, 4000]"
    by (simp add: delays_def tr backoff_trace_def delays_backoff_aux upt_3)
  have m: "http_error_message \<lparr>resp_status = 404, statusText = ''Not Found''\<rparr> = ''HTTP 404: Not Found''"
    by (simp add: http_error_message_def string_of_int_def digits.simps digit_char_def)
  have e: "result ?run = Inl (Throw (createError ''HTTP 404: Not Found'' None (Some ''NETWORK_ERROR'')))"
    using loop_not_ok_result[where a = 0 and rts = 3 and fetch = "always 404 ''Not Found''"
        and r = "\<lparr>resp_status = 404, statusText = ''Not Found''\<rparr>"] nok
    by (simp add: makeRequest_def cfg0_defaults always_def m)
  have c: "\<not> isRetryableError (Some 404) None" by (simp add: isRetryableError_def)
  show ?thesis using a d c by (simp add: e createError_def isRetryableError_def)
qed

text \<open>
  C6.  The code at a failing input: an upload with no configuration, answered 200 at
  once.  \<open>uploadFile\<close> (and \<open>post\<close> with a \<open>FormData\<close> body) pass no
  \<open>Content-Type\<close> of their own, but \<open>makeRequest\<close> spreads \<open>baseHeaders\<close> under the
  headers it is given, so the one request that reaches \<open>fetch\<close> carries
  \<open>Content-Type: application/json\<close>.
\<close>

theorem upload_sends_default_content_type:
  "map (\<lambda>q. req_headers q ''Content-Type'')
     (requests (uploadFile cfg0 (always 200 ''OK'') ''https://api/upload'' [(''file'', ''selfie.jpg'')] None))
     = [Some ''application/json'']
   \<and> map (\<lambda>q. req_headers q ''Content-Type'')
     (requests (post cfg0 (always 200 ''OK'') ''https://api/upload'' (FormData [(''file'', ''selfie.jpg'')]) None))
     = [Some ''application/json'']"
  by (simp add: uploadFile_def post_def makeRequest_def makeRequest_loop.simps spread_config_def
      config_headers_def requestHeaders_def baseHeaders_def retries_of_def retryDelay_of_def cfg0_def
      always_def try_block_def ok_def requests_def)

section \<open>Properties of the date arithmetic\<close>

lemma year_from_bounds:
  "DayFromYear y \<le> d \<Longrightarrow> DayFromYear (year_from y d) \<le> d \<and> d < DayFromYear (year_from y d + 1)"
proof (induction y d rule: year_from.induct)
  case (1 y d)
  show ?case
  proof (cases "DayFromYear (y + 1) \<le> d")
    case True
    then show ?thesis using "1.IH" by (subst (1 2) year_from.simps) simp
  next
    case False
    then show ?thesis using "1.prems" by (subst (1 2) year_from.simps) simp
  qed
qed

lemma floor_bounds:
  fixes x k :: int
  assumes "0 < k"
  shows "k * (x div k) \<le> x" "x < k * (x div k) + k"
proof -
  have "x = k * (x div k) + x mod k" by simp
  moreover have "0 \<le> x mod k" "x mod k < k" using assms by simp_all
  ultimately show "k * (x div k) \<le> x" "x < k * (x div k) + k" by linarith+
qed

lemma DayFromYear_estimate:
  "DayFromYear (1970 + (if 0 \<le> d then d div 366 else d div 365)) \<le> d"
proof (cases "0 \<le> d")
  case True
  define k where "k = d div 366"
  have k0: "0 \<le> k" using True by (simp add: k_def pos_imp_zdiv_nonneg_iff)
  have kd: "366 * k \<le> d" unfolding k_def by (rule floor_bounds(1)) simp
  define a where "a = (k + 1) div 4"
  define b where "b = (k + 69) div 100"
  define c where "c = (k + 369) div 400"
  have a: "4 * a \<le> k + 1" unfolding a_def by (rule floor_bounds(1)) simp
  have b: "k + 69 < 100 * b + 100" unfolding b_def by (rule floor_bounds(2)) simp
  have c: "400 * c \<le> k + 369" unfolding c_def by (rule floor_bounds(1)) simp
  have b0: "0 \<le> b" using k0 by (simp add: b_def pos_imp_zdiv_nonneg_iff)
  have "a - b + c \<le> k"
  proof (cases "k = 0")
    case True
    then show ?thesis using b0 by (simp add: a_def c_def)
  next
    case False
    then have "1 \<le> k" using k0 by simp
    then show ?thesis using a c b0 by linarith
  qed
  moreover have "DayFromYear (1970 + k) = 365 * k + a - b + c"
    by (simp add: DayFromYear_def a_def b_def c_def add.commute)
  ultimately show ?thesis using True kd by (simp add: k_def[symmetric])
next
  case False
  define k where "k = d div 365"
  have k0: "k < 0" using False by (simp add: k_def div_neg_pos_less0)
  have kd: "365 * k \<le> d" unfolding k_def by (rule floor_bounds(1)) simp
  define a where "a = (k + 1) div 4"
  define b where "b = (k + 69) div 100"
  define c where "c = (k + 369) div 400"
  have a: "4 * a \<le> k + 1" unfolding a_def by (rule floor_bounds(1)) simp
  have b: "k + 69 < 100 * b + 100" unfolding b_def by (rule floor_bounds(2)) simp
  have c: "400 * c \<le> k + 369" unfolding c_def by (rule floor_bounds(1)) simp
  have "a - b + c \<le> 0"
  proof (cases "k \<le> - 70")
    case True
    then show ?thesis using a b c by linarith
  next
    case False
    then have "0 \<le> b" by (simp add: b_def pos_imp_zdiv_nonneg_iff)
    then show ?thesis using a c k0 by linarith
  qed
  moreover have "DayFromYear (1970 + k) = 365 * k + a - b + c"
    by (simp add: DayFromYear_def a_def b_def c_def add.commute)
  ultimately show ?thesis using False kd by (simp add: k_def[symmetric])
qed

lemma YearFromDay_bounds:
  "DayFromYear (YearFromDay d) \<le> d \<and> d < DayFromYear (YearFromDay d) + DaysInYear (YearFromDay d)"
  using year_from_bounds[OF DayFromYear_estimate[of d]]
  by (simp add: YearFromDay_def DayFromYear_step)

lemma DaysInYear_cases: "DaysInYear y = 365 \<or> DaysInYear y = 366"
  by (simp add: DaysInYear_def)

lemma DayWithinYear_bounds:
  "0 \<le> DayWithinYear t \<and> DayWithinYear t < (if InLeapYear t then 366 else 365)"
  using YearFromDay_bounds[of "Day t"] DaysInYear_cases[of "YearFromTime t"]
  by (auto simp add: DayWithinYear_def InLeapYear_def YearFromTime_def)

lemma MonthFromTime_range: "0 \<le> MonthFromTime t \<and> MonthFromTime t \<le> 11"
  by (simp add: MonthFromTime_def Let_def)

lemma month_and_date:
  "month_start (InLeapYear t) (MonthFromTime t) + DateFromTime t - 1 = DayWithinYear t"
  using DayWithinYear_bounds[of t]
  by (simp add: DateFromTime_def MonthFromTime_def month_start_def Let_def)

lemma DaysInMonth_range:
  "0 \<le> m \<Longrightarrow> m \<le> 11 \<Longrightarrow> 28 \<le> DaysInMonth leap m \<and> DaysInMonth leap m \<le> 31"
proof -
  assume "0 \<le> m" "m \<le> 11"
  then have "m = 0 \<or> m = 1 \<or> m = 2 \<or> m = 3 \<or> m = 4 \<or> m = 5 \<or> m = 6 \<or> m = 7
    \<or> m = 8 \<or> m = 9 \<or> m = 10 \<or> m = 11" by presburger
  then show ?thesis
    by (auto simp add: DaysInMonth_def month_start_def)
qed

lemma MakeDay_next_month:
  assumes "0 \<le> m" "m \<le> 11"
  shows "MakeDay y (m + 1) dt = MakeDay y m dt + DaysInMonth (DaysInYear y = 366) m"
proof (cases "m = 11")
  case True
  show ?thesis
    using DaysInYear_cases[of y]
    by (auto simp add: True MakeDay_def DaysInMonth_def month_start_def DayFromYear_step Let_def)
next
  case False
  then have lt: "m + 1 < 12" "0 \<le> m + 1" "m < 12" using assms by simp_all
  have "(m + 1) div 12 = 0" "(m + 1) mod 12 = m + 1" "m div 12 = 0" "m mod 12 = m"
    using lt assms by simp_all
  then show ?thesis
    by (simp add: MakeDay_def DaysInMonth_def Let_def)
qed

lemma MakeDay_today: "MakeDay (YearFromTime t) (MonthFromTime t) (DateFromTime t) = Day t"
proof -
  have "MonthFromTime t div 12 = 0" "MonthFromTime t mod 12 = MonthFromTime t"
    using MonthFromTime_range[of t] by simp_all
  then show ?thesis
    using month_and_date[of t]
    by (simp add: MakeDay_def DayWithinYear_def InLeapYear_def Let_def)
qed

lemma time_split: "Day t * msPerDay + TimeWithinDay t = t"
  by (simp add: Day_def TimeWithinDay_def)

lemma MakeDate_next_month:
  "MakeDate (MakeDay (YearFromTime t) (MonthFromTime t + 1) (DateFromTime t)) (TimeWithinDay t)
     = t + DaysInMonth (InLeapYear t) (MonthFromTime t) * msPerDay"
proof -
  have "MakeDay (YearFromTime t) (MonthFromTime t + 1) (DateFromTime t)
          = Day t + DaysInMonth (InLeapYear t) (MonthFromTime t)"
    using MakeDay_next_month[of "MonthFromTime t" "YearFromTime t" "DateFromTime t"]
      MonthFromTime_range[of t] MakeDay_today[of t]
    by (simp add: InLeapYear_def)
  then have "MakeDate (MakeDay (YearFromTime t) (MonthFromTime t + 1) (DateFromTime t)) (TimeWithinDay t)
          = (Day t * msPerDay + TimeWithinDay t) + DaysInMonth (InLeapYear t) (MonthFromTime t) * msPerDay"
    by (simp add: MakeDate_def algebra_simps)
  then show ?thesis by (simp only: time_split)
qed

lemma setMonth_next:
  "setMonth z t (getMonth z t + 1)
     = UTC z (LocalTime z t
              + DaysInMonth (InLeapYear (LocalTime z t)) (MonthFromTime (LocalTime z t)) * msPerDay)"
  by (simp add: setMonth_def getMonth_def Let_def MakeDate_next_month)

lemma setMonth_next_bounds:
  assumes "offsets_within z S"
  shows "t + 28 * msPerDay - S \<le> setMonth z t (getMonth z t + 1)
       \<and> setMonth z t (getMonth z t + 1) \<le> t + 31 * msPerDay + S"
proof -
  define n where "n = DaysInMonth (InLeapYear (LocalTime z t)) (MonthFromTime (LocalTime z t))"
  define u where "u = LocalTime z t + n * msPerDay"
  have n: "28 \<le> n" "n \<le> 31"
    using DaysInMonth_range[of "MonthFromTime (LocalTime z t)" "InLeapYear (LocalTime z t)"]
      MonthFromTime_range[of "LocalTime z t"]
    by (simp_all add: n_def)
  have e: "setMonth z t (getMonth z t + 1) = t + n * msPerDay + (offset_at_utc z t - offset_at_local z u)"
    by (simp add: setMonth_next UTC_def LocalTime_def n_def u_def)
  have d: "\<bar>offset_at_utc z t - offset_at_local z u\<bar> \<le> S"
    using assms by (simp add: offsets_within_def)
  have m: "28 * msPerDay \<le> n * msPerDay" "n * msPerDay \<le> 31 * msPerDay"
    using n by (simp_all add: msPerDay_def)
  show ?thesis unfolding e using d m by linarith
qed

section \<open>Properties of the entitlement service\<close>

lemma lapsed_then_trial_store:
  "lapsed_then_trial =
     \<lparr>subscription_status = Some (Parsed lapsed_plan), trial_status = Some (Parsed running_trial)\<rparr>"
proof -
  have e: "setMonth utc 1700000000000 (getMonth utc 1700000000000 + 1) = 1702592000000" by code_simp
  have t: "setDate utc 1702600000000 (getDate utc 1702600000000 + 7) = 1703204800000" by code_simp
  have p: "getPlan ''premium_monthly'' = Some premium_monthly"
    by (simp add: getPlan_def plans_def premium_monthly_def)
  have d: "duration premium_monthly = monthly" "trialDays premium_monthly = Some 7"
    by (simp_all add: premium_monthly_def)
  show ?thesis
    by (simp add: lapsed_then_trial_def after_all_def subscribeToPlan_def startFreeTrial_def p d e t
        empty_storage_def lapsed_plan_def running_trial_def Let_def)
qed

text \<open>
  C1.  The code at a failing input, reached through the service alone: a monthly plan
  is bought, it lapses (the record stays in storage), and then a free trial is started,
  which succeeds.  One second later the trial has a week to run and the read reports
  \<open>isTrialActive\<close> true, yet it gives \<open>isActive\<close> false, where the stated rule
  (paid expiry unset or in the future, or trial expiry in the future) gives true: the
  check of the paid expiry comes after the trial check and overrides it.  The same
  store with the lapsed record cancelled gives \<open>isActive\<close> true.
\<close>

theorem lapsed_plan_hides_active_trial:
  "lapsed_then_trial =
     \<lparr>subscription_status = Some (Parsed lapsed_plan), trial_status = Some (Parsed running_trial)\<rparr>
   \<and> isActive (getSubscriptionStatus lapsed_then_trial 1702600001000) = False
   \<and> isTrialActive (getSubscriptionStatus lapsed_then_trial 1702600001000) = Some True
   \<and> claimed_isActive lapsed_plan running_trial 1702600001000 = True
   \<and> isActive (getSubscriptionStatus (after lapsed_then_trial (CancelSubscription True)) 1702600001000) = True"
  by (simp add: lapsed_then_trial_store getSubscriptionStatus_def claimed_isActive_def cancelSubscription_def
      lapsed_plan_def running_trial_def inactive_def Let_def)

lemma after_trial_status:
  "trial_used st \<Longrightarrow> trial_status (after st c) = trial_status st"
  by (cases c)
     (auto simp add: trial_used_def startFreeTrial_def subscribeToPlan_def cancelSubscription_def Let_def
        split: option.splits item.splits if_splits)

lemma after_all_trial_status:
  "trial_used st \<Longrightarrow> trial_status (after_all st cs) = trial_status st"
proof (induction cs arbitrary: st)
  case Nil
  then show ?case by (simp add: after_all_def)
next
  case (Cons c cs)
  have u: "trial_used (after st c)"
    using Cons.prems after_trial_status[OF Cons.prems, of c] by (simp add: trial_used_def)
  show ?case
    using Cons.IH[OF u] after_trial_status[OF Cons.prems, of c] by (simp add: after_all_def)
qed

lemma startFreeTrial_used:
  "trial_used st \<Longrightarrow> startFreeTrial z pid api_ok now st = (already_used, st)"
  by (auto simp add: trial_used_def startFreeTrial_def already_used_def Let_def split: option.splits item.splits)

lemma startFreeTrial_success_marks:
  "success (fst (startFreeTrial z pid api_ok now st)) \<Longrightarrow> trial_used (snd (startFreeTrial z pid api_ok now st))"
  by (auto simp add: trial_used_def startFreeTrial_def Let_def split: option.splits item.splits if_splits)

text \<open>
  C7.  After a \<open>startFreeTrial\<close> that succeeded, the trial record is stored with
  \<open>used\<close> true; and after any further sequence of calls of the service (with any
  plans, API results, clock readings and time zones) the trial record is still that same record,
  and a \<open>startFreeTrial\<close> for any plan at any time returns the already-used error and
  writes nothing.
\<close>

theorem trial_used_once:
  assumes "success (fst (startFreeTrial z pid api_ok now st))"
  shows "trial_used (snd (startFreeTrial z pid api_ok now st))
       \<and> (\<forall>cs z' pid' api_ok' now'.
            startFreeTrial z' pid' api_ok' now' (after_all (snd (startFreeTrial z pid api_ok now st)) cs)
              = (already_used, after_all (snd (startFreeTrial z pid api_ok now st)) cs)
          \<and> trial_status (after_all (snd (startFreeTrial z pid api_ok now st)) cs)
              = trial_status (snd (startFreeTrial z pid api_ok now st))
          \<and> trial_used (after_all (snd (startFreeTrial z pid api_ok now st)) cs))"
proof -
  let ?st = "snd (startFreeTrial z pid api_ok now st)"
  have u: "trial_used ?st" by (rule startFreeTrial_success_marks[OF assms])
  have k: "trial_status (after_all ?st cs) = trial_status ?st" for cs
    by (rule after_all_trial_status[OF u])
  have u': "trial_used (after_all ?st cs)" for cs
    using u k[of cs] by (simp add: trial_used_def)
  show ?thesis using u k u' startFreeTrial_used by blast
qed

theorem trial_used_once_witness:
  "success (fst (startFreeTrial utc ''premium_monthly'' True 1700000000000 empty_storage))
   \<and> startFreeTrial new_york_2025 ''premium_yearly'' True 1900000000000
        (after_all (snd (startFreeTrial utc ''premium_monthly'' True 1700000000000 empty_storage))
           [CancelSubscription True, SubscribeToPlan utc ''premium_yearly'' True 1800000000000,
            GetSubscriptionStatus 1800000000001])
      = (already_used,
         after_all (snd (startFreeTrial utc ''premium_monthly'' True 1700000000000 empty_storage))
           [CancelSubscription True, SubscribeToPlan utc ''premium_yearly'' True 1800000000000,
            GetSubscriptionStatus 1800000000001])"
proof -
  have h: "success (fst (startFreeTrial utc ''premium_monthly'' True 1700000000000 empty_storage))"
    by (simp add: startFreeTrial_def empty_storage_def getPlan_def plans_def premium_monthly_def Let_def)
  show ?thesis
    using trial_used_once[OF h] h by simp
qed

text \<open>
  C10.  When \<open>simulateSubscriptionAPI\<close> throws, \<open>startFreeTrial\<close> and
  \<open>subscribeToPlan\<close> return a result with \<open>success\<close> false and an error message, and
  the storage they leave is the storage they found.
\<close>

theorem billing_failure_writes_nothing:
  "snd (startFreeTrial z pid False now st) = st
   \<and> \<not> success (fst (startFreeTrial z pid False now st))
   \<and> error (fst (startFreeTrial z pid False now st)) \<noteq> None
   \<and> snd (subscribeToPlan z pid False now st) = st
   \<and> \<not> success (fst (subscribeToPlan z pid False now st))
   \<and> error (fst (subscribeToPlan z pid False now st)) \<noteq> None"
  by (auto simp add: startFreeTrial_def subscribeToPlan_def Let_def split: option.splits item.splits)

lemma getPlan_monthly: "getPlan ''premium_monthly'' = Some premium_monthly"
  by (simp add: getPlan_def plans_def premium_monthly_def)

lemma after_keeps_trial_parseable:
  "trial_status st \<noteq> Some Unparseable \<Longrightarrow> trial_status (after st c) \<noteq> Some Unparseable"
  by (cases c)
     (auto simp add: startFreeTrial_def subscribeToPlan_def cancelSubscription_def Let_def
        split: option.splits item.splits if_splits)

lemma new_york_offsets: "offsets_within new_york_2025 msPerHour"
  by (simp add: offsets_within_def new_york_2025_def msPerHour_def)

text \<open>
  C9.  Let \<open>subscribeToPlan\<close> for \<open>premium_monthly\<close> succeed at clock reading
  \<open>now\<close>, on a device in any time zone whose offsets differ by at most \<open>S\<close> (an hour
  where daylight saving shifts the clock by an hour, nothing in a zone without
  changes), and on a store whose trial item (if any) parses, as every item the service
  writes does.  A read at any \<open>r\<close> from \<open>now\<close> up to 28 days less \<open>S\<close> later gives
  \<open>isActive\<close> true, the \<open>premium_monthly\<close> catalog entry as \<open>plan\<close>, and as
  \<open>expiresAt\<close> the result of \<open>setMonth(getMonth() + 1)\<close> on \<open>now\<close>: the same local
  time of day one local calendar month on, which is between 28 days less \<open>S\<close> and 31
  days plus \<open>S\<close> after \<open>now\<close>.
\<close>

theorem subscribe_then_read:
  assumes "success (fst (subscribeToPlan z ''premium_monthly'' api_ok now st))"
    and "trial_status st \<noteq> Some Unparseable"
    and "offsets_within z S"
    and "now \<le> r" and "r < now + 28 * msPerDay - S"
  shows "isActive (getSubscriptionStatus (snd (subscribeToPlan z ''premium_monthly'' api_ok now st)) r)
       \<and> plan (getSubscriptionStatus (snd (subscribeToPlan z ''premium_monthly'' api_ok now st)) r)
           = Some premium_monthly
       \<and> expiresAt (getSubscriptionStatus (snd (subscribeToPlan z ''premium_monthly'' api_ok now st)) r)
           = Some (setMonth z now (getMonth z now + 1))
       \<and> setMonth z now (getMonth z now + 1)
           = UTC z (LocalTime z now
                    + DaysInMonth (InLeapYear (LocalTime z now)) (MonthFromTime (LocalTime z now)) * msPerDay)
       \<and> now + 28 * msPerDay - S \<le> setMonth z now (getMonth z now + 1)
       \<and> setMonth z now (getMonth z now + 1) \<le> now + 31 * msPerDay + S"
proof -
  let ?e = "setMonth z now (getMonth z now + 1)"
  have ok: "api_ok" using assms(1) by (auto simp add: subscribeToPlan_def getPlan_monthly split: if_splits)
  have m: "duration premium_monthly = monthly" by (simp add: premium_monthly_def)
  have st': "snd (subscribeToPlan z ''premium_monthly'' api_ok now st)
      = st\<lparr>subscription_status := Some (Parsed \<lparr>s_isActive = True, s_plan = Some premium_monthly, s_expiresAt = Some ?e\<rparr>)\<rparr>"
    using ok by (simp add: subscribeToPlan_def getPlan_monthly m Let_def)
  have b: "now + 28 * msPerDay - S \<le> ?e" "?e \<le> now + 31 * msPerDay + S"
    using setMonth_next_bounds[OF assms(3), of now] by simp_all
  have fut: "r < ?e" using b(1) assms(5) by linarith
  have rd: "isActive (getSubscriptionStatus (snd (subscribeToPlan z ''premium_monthly'' api_ok now st)) r)
       \<and> plan (getSubscriptionStatus (snd (subscribeToPlan z ''premium_monthly'' api_ok now st)) r) = Some premium_monthly
       \<and> expiresAt (getSubscriptionStatus (snd (subscribeToPlan z ''premium_monthly'' api_ok now st)) r) = Some ?e"
    unfolding st' using assms(2) fut
    by (auto simp add: getSubscriptionStatus_def Let_def split: option.splits item.splits)
  show ?thesis using rd b setMonth_next[of z now] by simp
qed

theorem subscribe_then_read_witness:
  "success (fst (subscribeToPlan new_york_2025 ''premium_monthly'' True 1739638800000 empty_storage))
   \<and> trial_status empty_storage \<noteq> Some Unparseable
   \<and> offsets_within new_york_2025 msPerHour
   \<and> (1739638800000::int) \<le> 1739638800005
   \<and> 1739638800005 < 1739638800000 + 28 * msPerDay - msPerHour
   \<and> isActive (getSubscriptionStatus
         (snd (subscribeToPlan new_york_2025 ''premium_monthly'' True 1739638800000 empty_storage)) 1739638800005)
   \<and> expiresAt (getSubscriptionStatus
         (snd (subscribeToPlan new_york_2025 ''premium_monthly'' True 1739638800000 empty_storage)) 1739638800005)
       = Some 1742054400000
   \<and> (1742054400000::int) = 1739638800000 + 28 * msPerDay - msPerHour"
proof -
  have h1: "success (fst (subscribeToPlan new_york_2025 ''premium_monthly'' True 1739638800000 empty_storage))"
    by (simp add: subscribeToPlan_def getPlan_monthly Let_def)
  have h2: "trial_status empty_storage \<noteq> Some Unparseable" by (simp add: empty_storage_def)
  have h4: "(1739638800000::int) \<le> 1739638800005" by simp
  have h5: "(1739638800005::int) < 1739638800000 + 28 * msPerDay - msPerHour"
    by (simp add: msPerDay_def msPerHour_def)
  have e: "setMonth new_york_2025 1739638800000 (getMonth new_york_2025 1739638800000 + 1) = 1742054400000"
    by code_simp
  have v: "(1742054400000::int) = 1739638800000 + 28 * msPerDay - msPerHour"
    by (simp add: msPerDay_def msPerHour_def)
  show ?thesis
    using subscribe_then_read[OF h1 h2 new_york_offsets h4 h5] h1 h2 new_york_offsets h5 v by (simp add: e)
qed

section \<open>Properties of the gateway client\<close>

lemma random_score_in_range:
  assumes "0 \<le> r" "r < 1" "0 < n" "0 \<le> base" "base + n \<le> 101"
  shows "score_in_range (random_score r n base)"
proof -
  have "0 \<le> r * of_int n" using assms by simp
  then have lo: "0 \<le> \<lfloor>r * of_int n\<rfloor>" by simp
  have "r * of_int n < of_int n" using assms by simp
  then have hi: "\<lfloor>r * of_int n\<rfloor> < n" by (simp add: floor_less_iff)
  have "0 \<le> \<lfloor>r * of_int n\<rfloor> + base" "\<lfloor>r * of_int n\<rfloor> + base \<le> 100"
    using lo hi assms by linarith+
  then have "(0::real) \<le> of_int (\<lfloor>r * of_int n\<rfloor> + base)" "(of_int (\<lfloor>r * of_int n\<rfloor> + base) :: real) \<le> 100"
    by (simp_all only: of_int_0_le_iff of_int_le_numeral_iff)
  then show ?thesis by (simp add: random_score_def)
qed

lemma mock_glow_in_range: "unit_draws rnd \<Longrightarrow> glow_scores_in_range (getMockGlowAnalysis rnd)"
  by (simp add: unit_draws_def glow_scores_in_range_def getMockGlowAnalysis_def Let_def random_score_in_range)

lemma mock_outfit_in_range: "unit_draws rnd \<Longrightarrow> outfit_scores_in_range (getMockOutfitAnalysis rnd)"
  by (simp add: unit_draws_def outfit_scores_in_range_def getMockOutfitAnalysis_def random_score_in_range)

lemma mock_glow_lists:
  "nonempty_list (tips (getMockGlowAnalysis rnd))" "nonempty_list (aiTips (getMockGlowAnalysis rnd))"
  "nonempty_list (improvements (getMockGlowAnalysis rnd))" "nonempty_list (recommendations (getMockGlowAnalysis rnd))"
  by (simp_all add: getMockGlowAnalysis_def Let_def strings_def mock_aiTips_def mock_improvements_def
      mock_recommendations_def)

lemma mock_outfit_lists:
  "nonempty_list (outfit_tips (getMockOutfitAnalysis rnd))" "nonempty_list (compatibleColors (getMockOutfitAnalysis rnd))"
  by (simp_all add: getMockOutfitAnalysis_def strings_def)

lemma malformed_glow_rejected: "malformed_glow c \<Longrightarrow> parseGlowAnalysis rnd c = getMockGlowAnalysis rnd"
  by (cases c) (auto simp add: malformed_glow_def parseGlowAnalysis_def parseGlowAnalysis_try_def split: js.splits)

lemma malformed_outfit_rejected: "malformed_outfit c \<Longrightarrow> parseOutfitAnalysis rnd c = getMockOutfitAnalysis rnd"
  by (cases c) (auto simp add: malformed_outfit_def parseOutfitAnalysis_def parseOutfitAnalysis_try_def split: js.splits)

text \<open>
  C2.  With draws of \<open>Math.random\<close> in the unit interval, and whatever the upload and
  the encoding of the image do: when the completion the gateway delivers is malformed,
  \<open>analyzeGlow\<close> and \<open>analyzeOutfit\<close> return (they do not throw), and what they
  return is the mock result, whose scores all lie between 0 and 100 and whose lists of
  tips, improvements, recommendations and colours are not empty.
\<close>

theorem malformed_completion_gives_mock:
  assumes "unit_draws rnd" and "malformed_glow c" and "malformed_outfit c'"
  shows "analyzeGlow rnd (env\<lparr>reply := Completion c\<rparr>) = Inr (getMockGlowAnalysis rnd)
       \<and> glow_scores_in_range (getMockGlowAnalysis rnd)
       \<and> nonempty_list (tips (getMockGlowAnalysis rnd)) \<and> nonempty_list (aiTips (getMockGlowAnalysis rnd))
       \<and> nonempty_list (improvements (getMockGlowAnalysis rnd))
       \<and> nonempty_list (recommendations (getMockGlowAnalysis rnd))
       \<and> analyzeOutfit rnd (env\<lparr>reply := Completion c'\<rparr>) = Inr (getMockOutfitAnalysis rnd)
       \<and> outfit_scores_in_range (getMockOutfitAnalysis rnd)
       \<and> nonempty_list (outfit_tips (getMockOutfitAnalysis rnd))
       \<and> nonempty_list (compatibleColors (getMockOutfitAnalysis rnd))"
proof -
  have g: "analyzeGlow rnd (env\<lparr>reply := Completion c\<rparr>) = Inr (getMockGlowAnalysis rnd)"
    by (simp add: analyzeGlow_def analyzeGlow_try_def getAIGlowAnalysis_def malformed_glow_rejected[OF assms(2)])
  have o: "analyzeOutfit rnd (env\<lparr>reply := Completion c'\<rparr>) = Inr (getMockOutfitAnalysis rnd)"
    by (simp add: analyzeOutfit_def analyzeOutfit_try_def getAIOutfitAnalysis_def malformed_outfit_rejected[OF assms(3)])
  show ?thesis
    using g o mock_glow_in_range[OF assms(1)] mock_outfit_in_range[OF assms(1)] mock_glow_lists[of rnd]
      mock_outfit_lists[of rnd]
    by simp
qed

lemma half_unit: "unit_draws half"
  by (simp add: unit_draws_def half_def)

theorem malformed_completion_gives_mock_witness:
  "unit_draws half \<and> malformed_glow NoParse \<and> malformed_outfit (Json (Str ''Sorry, I cannot help''))
   \<and> map_sum id overallScore (analyzeGlow half (env_with NoParse)) = Inr (Num 85)
   \<and> map_sum id outfitScore (analyzeOutfit half (env_with (Json (Str ''Sorry, I cannot help'')))) = Inr (Num 85)"
proof -
  have m1: "malformed_glow NoParse" by (simp add: malformed_glow_def)
  have m2: "malformed_outfit (Json (Str ''Sorry, I cannot help''))" by (simp add: malformed_outfit_def)
  have e: "env_with c = (env_with NoParse)\<lparr>reply := Completion c\<rparr>" for c by (simp add: env_with_def)
  have f: "\<lfloor>(15::real)\<rfloor> = 15" by simp
  have v: "overallScore (getMockGlowAnalysis half) = Num 85" "outfitScore (getMockOutfitAnalysis half) = Num 85"
    by (simp_all add: getMockGlowAnalysis_def getMockOutfitAnalysis_def random_score_def half_def Let_def)
  show ?thesis
    using malformed_completion_gives_mock[OF half_unit m1 m2, of "env_with NoParse"] half_unit m1 m2
    by (simp add: e[symmetric] v)
qed

lemma present_or_else: "present d \<Longrightarrow> present (or_else a d)"
  by (cases a) (simp_all add: or_else_def present_def)

lemma present_isArray: "isArray a \<Longrightarrow> present a"
  by (cases a) (simp_all add: present_def)

lemma score_or_else:
  "(truthy a \<longrightarrow> score_in_range a) \<Longrightarrow> score_in_range d \<Longrightarrow> score_in_range (or_else a d)"
  by (simp add: or_else_def)

lemma array_or_else:
  "(truthy a \<longrightarrow> isArray a) \<Longrightarrow> isArray d \<Longrightarrow> isArray (or_else a d)"
  by (simp add: or_else_def)

lemma score_number: "is_number a \<Longrightarrow> (truthy a \<longrightarrow> score_in_range a) \<Longrightarrow> score_in_range a"
  by (cases a) auto

lemma mock_glow_arrays: "glow_lists_are_arrays (getMockGlowAnalysis rnd)"
  by (simp add: glow_lists_are_arrays_def getMockGlowAnalysis_def Let_def strings_def)

lemma mock_outfit_arrays: "outfit_lists_are_arrays (getMockOutfitAnalysis rnd)"
  by (simp add: outfit_lists_are_arrays_def getMockOutfitAnalysis_def strings_def)

lemma arrays_present_glow: "glow_lists_are_arrays r \<Longrightarrow> glow_lists_present r"
  by (simp add: glow_lists_are_arrays_def glow_lists_present_def present_isArray)

lemma arrays_present_outfit: "outfit_lists_are_arrays r \<Longrightarrow> outfit_lists_present r"
  by (simp add: outfit_lists_are_arrays_def outfit_lists_present_def present_isArray)

lemma parse_glow_cases:
  assumes "parseGlowAnalysis_try c = Inr r"
  obtains (new) v where "c = Json v" "r = comprehensive_result v" "is_number (field v ''overallScore'')"
      "isArray (field v ''aiTips'')"
    | (old) v where "c = Json v" "r = legacy_result v" "is_number (field v ''glowScore'')"
  using assms by (cases c) (auto simp add: parseGlowAnalysis_try_def split: if_splits)

lemma parse_outfit_cases:
  assumes "parseOutfitAnalysis_try c = Inr r"
  obtains v where "c = Json v" "r = outfit_result v" "is_number (field v ''outfitScore'')"
      "isArray (field v ''tips'')"
  using assms by (cases c) (auto simp add: parseOutfitAnalysis_try_def split: if_splits)

lemma parse_glow_present: "parseGlowAnalysis_try c = Inr r \<Longrightarrow> glow_lists_present r"
proof (erule parse_glow_cases)
  fix v assume "r = comprehensive_result v" "isArray (field v ''aiTips'')"
  then show ?thesis
    by (simp add: comprehensive_result_def glow_lists_present_def present_or_else present_isArray)
next
  fix v assume "r = legacy_result v"
  then show ?thesis
    by (simp add: legacy_result_def glow_lists_present_def present_or_else present_isArray)
qed

lemma parse_outfit_present: "parseOutfitAnalysis_try c = Inr r \<Longrightarrow> outfit_lists_present r"
proof (erule parse_outfit_cases)
  fix v assume "r = outfit_result v" "isArray (field v ''tips'')"
  then show ?thesis
    by (simp add: outfit_result_def outfit_lists_present_def present_or_else present_isArray strings_def)
qed

lemma fields_in_range_score:
  "fields_in_range v \<Longrightarrow> k \<in> set score_keys \<Longrightarrow> truthy (field v k) \<longrightarrow> score_in_range (field v k)"
  by (simp add: fields_in_range_def)

lemma fields_in_range_list:
  "fields_in_range v \<Longrightarrow> k \<in> set list_keys \<Longrightarrow> truthy (field v k) \<longrightarrow> isArray (field v k)"
  by (simp add: fields_in_range_def)

lemma parse_glow_in_range:
  assumes "parseGlowAnalysis_try (Json v) = Inr r" and "fields_in_range v"
  shows "glow_scores_in_range r \<and> glow_lists_are_arrays r"
proof -
  note s = fields_in_range_score[OF assms(2)]
  note l = fields_in_range_list[OF assms(2)]
  have sk: "''overallScore'' \<in> set score_keys" "''jawlineScore'' \<in> set score_keys"
    "''brightness'' \<in> set score_keys" "''hydration'' \<in> set score_keys" "''symmetryScore'' \<in> set score_keys"
    "''symmetry'' \<in> set score_keys" "''glowScore'' \<in> set score_keys"
    by (simp_all add: score_keys_def)
  have lk: "''improvements'' \<in> set list_keys" "''recommendations'' \<in> set list_keys"
    "''tips'' \<in> set list_keys" "''aiTips'' \<in> set list_keys"
    by (simp_all add: list_keys_def)
  from assms(1) show ?thesis
  proof (cases rule: parse_glow_cases)
    case (new w)
    then have w: "w = v" by simp
    show ?thesis
      unfolding new(2) w comprehensive_result_def glow_scores_in_range_def glow_lists_are_arrays_def
      using new(3,4) score_number[OF new(3)[unfolded w] s[OF sk(1)]] s[OF sk(2)] s[OF sk(3)] s[OF sk(4)] s[OF sk(5)]
        l[OF lk(1)] l[OF lk(2)]
      by (simp add: w score_or_else array_or_else)
  next
    case (old w)
    then have w: "w = v" by simp
    show ?thesis
      unfolding old(2) w legacy_result_def glow_scores_in_range_def glow_lists_are_arrays_def
      using score_number[OF old(3)[unfolded w] s[OF sk(7)]] s[OF sk(3)] s[OF sk(4)] s[OF sk(6)]
        l[OF lk(1)] l[OF lk(2)] l[OF lk(3)]
      by (simp add: w score_or_else array_or_else)
  qed
qed

lemma parse_outfit_in_range:
  assumes "parseOutfitAnalysis_try (Json v) = Inr r" and "fields_in_range v"
  shows "outfit_scores_in_range r \<and> outfit_lists_are_arrays r"
proof -
  note s = fields_in_range_score[OF assms(2)]
  note l = fields_in_range_list[OF assms(2)]
  have sk: "''outfitScore'' \<in> set score_keys" "''colorMatchScore'' \<in> set score_keys"
    "''styleScore'' \<in> set score_keys"
    by (simp_all add: score_keys_def)
  have lk: "''compatibleColors'' \<in> set list_keys" by (simp add: list_keys_def)
  from assms(1) show ?thesis
  proof (cases rule: parse_outfit_cases)
    case (1 w)
    then have w: "w = v" by simp
    show ?thesis
      unfolding 1(2) w outfit_result_def outfit_scores_in_range_def outfit_lists_are_arrays_def
      using 1(4) score_number[OF 1(3)[unfolded w] s[OF sk(1)]] s[OF sk(2)] s[OF sk(3)] l[OF lk]
      by (simp add: w score_or_else array_or_else strings_def)
  qed
qed


lemma mock_glow_present: "glow_lists_present (getMockGlowAnalysis rnd)"
  by (rule arrays_present_glow[OF mock_glow_arrays])

lemma mock_outfit_present: "outfit_lists_present (getMockOutfitAnalysis rnd)"
  by (rule arrays_present_outfit[OF mock_outfit_arrays])

lemma parseGlowAnalysis_result:
  assumes "unit_draws rnd"
  shows "glow_lists_present (parseGlowAnalysis rnd c)
       \<and> (reply_in_range (Completion c) \<longrightarrow>
            glow_scores_in_range (parseGlowAnalysis rnd c) \<and> glow_lists_are_arrays (parseGlowAnalysis rnd c))"
proof (cases "parseGlowAnalysis_try c")
  case (Inl e)
  then have "parseGlowAnalysis rnd c = getMockGlowAnalysis rnd" by (simp add: parseGlowAnalysis_def)
  then show ?thesis
    using mock_glow_present[of rnd] mock_glow_arrays[of rnd] mock_glow_in_range[OF assms] by simp
next
  case (Inr r)
  then have p: "parseGlowAnalysis rnd c = r" by (simp add: parseGlowAnalysis_def)
  from Inr obtain v where v: "c = Json v" by (cases c) (simp_all add: parseGlowAnalysis_try_def)
  show ?thesis
    unfolding p using parse_glow_present[OF Inr] parse_glow_in_range[OF Inr[unfolded v]]
    by (simp add: reply_in_range_def v)
qed

lemma parseOutfitAnalysis_result:
  assumes "unit_draws rnd"
  shows "outfit_lists_present (parseOutfitAnalysis rnd c)
       \<and> (reply_in_range (Completion c) \<longrightarrow>
            outfit_scores_in_range (parseOutfitAnalysis rnd c) \<and> outfit_lists_are_arrays (parseOutfitAnalysis rnd c))"
proof (cases "parseOutfitAnalysis_try c")
  case (Inl e)
  then have "parseOutfitAnalysis rnd c = getMockOutfitAnalysis rnd" by (simp add: parseOutfitAnalysis_def)
  then show ?thesis
    using mock_outfit_present[of rnd] mock_outfit_arrays[of rnd] mock_outfit_in_range[OF assms] by simp
next
  case (Inr r)
  then have p: "parseOutfitAnalysis rnd c = r" by (simp add: parseOutfitAnalysis_def)
  from Inr obtain v where v: "c = Json v" by (cases c) (simp_all add: parseOutfitAnalysis_try_def)
  show ?thesis
    unfolding p using parse_outfit_present[OF Inr] parse_outfit_in_range[OF Inr[unfolded v]]
    by (simp add: reply_in_range_def v)
qed

text \<open>
  C3, as the code has it.  With draws of \<open>Math.random\<close> in the unit interval,
  \<open>analyzeGlow\<close> and \<open>analyzeOutfit\<close> return for every completion and every
  environment, and every list field of the result is there (neither \<open>null\<close> nor
  \<open>undefined\<close>).  No score is clamped: the scores of the result lie between 0 and
  100, and its list fields are arrays, when the completion's own score fields and list
  fields (where it has them with a truthy value) are numbers between 0 and 100 and
  arrays.
\<close>

theorem scores_pass_through_unclamped:
  assumes "unit_draws rnd"
  shows "(case analyzeGlow rnd env of
            Inl _ \<Rightarrow> False
          | Inr r \<Rightarrow> glow_lists_present r
                \<and> (reply_in_range (reply env) \<longrightarrow> glow_scores_in_range r \<and> glow_lists_are_arrays r))
       \<and> (case analyzeOutfit rnd env of
            Inl _ \<Rightarrow> False
          | Inr r \<Rightarrow> outfit_lists_present r
                \<and> (reply_in_range (reply env) \<longrightarrow> outfit_scores_in_range r \<and> outfit_lists_are_arrays r))"
proof -
  have g: "glow_lists_present (getAIGlowAnalysis rnd env)
       \<and> (reply_in_range (reply env) \<longrightarrow>
            glow_scores_in_range (getAIGlowAnalysis rnd env) \<and> glow_lists_are_arrays (getAIGlowAnalysis rnd env))"
    using mock_glow_present[of rnd] mock_glow_arrays[of rnd] mock_glow_in_range[OF assms]
      parseGlowAnalysis_result[OF assms]
    by (cases "reply env") (simp_all add: getAIGlowAnalysis_def)
  have o: "outfit_lists_present (getAIOutfitAnalysis rnd env)
       \<and> (reply_in_range (reply env) \<longrightarrow>
            outfit_scores_in_range (getAIOutfitAnalysis rnd env) \<and> outfit_lists_are_arrays (getAIOutfitAnalysis rnd env))"
    using mock_outfit_present[of rnd] mock_outfit_arrays[of rnd] mock_outfit_in_range[OF assms]
      parseOutfitAnalysis_result[OF assms]
    by (cases "reply env") (simp_all add: getAIOutfitAnalysis_def)
  show ?thesis
    using g o mock_glow_present[of rnd] mock_glow_arrays[of rnd] mock_glow_in_range[OF assms]
      mock_outfit_present[of rnd] mock_outfit_arrays[of rnd] mock_outfit_in_range[OF assms]
    by (simp add: analyzeGlow_def analyzeGlow_try_def analyzeOutfit_def analyzeOutfit_try_def)
qed

lemma analyzeGlow_82: "analyzeGlow half (env_with (Json glow_82)) = Inr (comprehensive_result glow_82)"
  by (simp add: analyzeGlow_def analyzeGlow_try_def getAIGlowAnalysis_def env_with_def parseGlowAnalysis_def
      parseGlowAnalysis_try_def glow_82_def)

lemma analyzeOutfit_88: "analyzeOutfit half (env_with (Json outfit_88)) = Inr (outfit_result outfit_88)"
  by (simp add: analyzeOutfit_def analyzeOutfit_try_def getAIOutfitAnalysis_def env_with_def parseOutfitAnalysis_def
      parseOutfitAnalysis_try_def outfit_88_def)

lemma in_range_82: "reply_in_range (reply (env_with (Json glow_82)))"
  by (simp add: reply_in_range_def env_with_def fields_in_range_def score_keys_def list_keys_def glow_82_def)

lemma in_range_88: "reply_in_range (reply (env_with (Json outfit_88)))"
  by (simp add: reply_in_range_def env_with_def fields_in_range_def score_keys_def list_keys_def outfit_88_def)

theorem scores_pass_through_unclamped_witness:
  "unit_draws half
   \<and> reply_in_range (reply (env_with (Json glow_82)))
   \<and> analyzeGlow half (env_with (Json glow_82)) = Inr (comprehensive_result glow_82)
   \<and> overallScore (comprehensive_result glow_82) = Num 82
   \<and> glow_scores_in_range (comprehensive_result glow_82)
   \<and> glow_lists_are_arrays (comprehensive_result glow_82)
   \<and> reply_in_range (reply (env_with (Json outfit_88)))
   \<and> analyzeOutfit half (env_with (Json outfit_88)) = Inr (outfit_result outfit_88)
   \<and> outfit_scores_in_range (outfit_result outfit_88)"
proof -
  have v: "overallScore (comprehensive_result glow_82) = Num 82"
    by (simp add: comprehensive_result_def glow_82_def)
  show ?thesis
    using scores_pass_through_unclamped[OF half_unit, of "env_with (Json glow_82)"]
      scores_pass_through_unclamped[OF half_unit, of "env_with (Json outfit_88)"]
      half_unit in_range_82 in_range_88 v
    by (simp add: analyzeGlow_82 analyzeOutfit_88)
qed

text \<open>
  C3 as stated fails: a completion in the comprehensive format with \<open>overallScore\<close>
  500 is accepted, and \<open>analyzeGlow\<close> returns 500 as \<open>overallScore\<close> and as
  \<open>glowScore\<close>.
\<close>

theorem score_500_is_returned:
  "analyzeGlow half (env_with (Json glow_500)) = Inr (comprehensive_result glow_500)
   \<and> overallScore (comprehensive_result glow_500) = Num 500
   \<and> \<not> glow_scores_in_range (comprehensive_result glow_500)"
  by (simp add: analyzeGlow_def analyzeGlow_try_def getAIGlowAnalysis_def env_with_def parseGlowAnalysis_def
      parseGlowAnalysis_try_def glow_500_def comprehensive_result_def glow_scores_in_range_def)

lemma mock_tasks_loop_eq:
  "d \<le> 31 \<Longrightarrow> mock_tasks_loop d tasks = tasks @ concat (map tasks_of_day [d..30])"
proof (induction d tasks rule: mock_tasks_loop.induct)
  case (1 d tasks)
  show ?case
  proof (cases "d \<le> 30")
    case True
    have u: "[d..30] = d # [d + 1..30]" using True by (simp add: upto_rec1)
    show ?thesis
      using True "1.IH" by (subst mock_tasks_loop.simps) (simp add: u)
  next
    case False
    then have "[d..30] = []" by simp
    then show ?thesis using False by (subst mock_tasks_loop.simps) simp
  qed
qed

lemma day_tasks_of_day: "t \<in> set (tasks_of_day d) \<Longrightarrow> day t = d"
  by (auto simp add: tasks_of_day_def split: if_splits)

lemma filter_other_day: "d' \<noteq> d \<Longrightarrow> filter (\<lambda>t. day t = d) (tasks_of_day d') = []"
  by (auto simp add: filter_empty_conv dest: day_tasks_of_day)

lemma filter_same_day: "filter (\<lambda>t. day t = d) (tasks_of_day d) = tasks_of_day d"
  by (auto simp add: filter_id_conv dest: day_tasks_of_day)

lemma filter_days_absent:
  "d \<notin> set ds \<Longrightarrow> filter (\<lambda>t. day t = d) (concat (map tasks_of_day ds)) = []"
  by (induction ds) (auto simp add: filter_other_day)

lemma filter_days:
  "distinct ds \<Longrightarrow> d \<in> set ds \<Longrightarrow> filter (\<lambda>t. day t = d) (concat (map tasks_of_day ds)) = tasks_of_day d"
proof (induction ds)
  case Nil
  then show ?case by simp
next
  case (Cons a ds)
  show ?case
  proof (cases "a = d")
    case True
    then have "d \<notin> set ds" using Cons.prems(1) by simp
    then show ?thesis using True by (simp add: filter_same_day filter_days_absent)
  next
    case False
    then show ?thesis using Cons by (simp add: filter_other_day)
  qed
qed

lemma days_of_concat: "set (map day (concat (map tasks_of_day ds))) = set ds"
  by (induction ds) (auto simp add: tasks_of_day_def)

lemma length_tasks_of_day: "length (tasks_of_day d) = (if d mod 3 = 0 then 4 else 3)"
  by (simp add: tasks_of_day_def)

lemma exercise_tasks_of_day:
  "length (filter (\<lambda>t. task_type t = exercise) (tasks_of_day d)) = (if d mod 3 = 0 then 1 else 0)"
  by (simp add: tasks_of_day_def)

lemma mock_dailyTasks: "dailyTasks (getMockCoachingPlan g now) = concat (map tasks_of_day [1..30])"
  by (simp add: getMockCoachingPlan_def mock_tasks_loop_eq)

lemma fallback_is_mock:
  "generateCoachingPlan g sc now l = Fallback p \<Longrightarrow> p = getMockCoachingPlan g now"
  by (cases l) (auto simp add: generateCoachingPlan_def parseCoachingPlan_def split: sum.splits)

text \<open>
  C8.  Whenever \<open>generateCoachingPlan\<close> falls back (for any goal, score and clock),
  the plan has \<open>duration\<close> 30, the \<open>day\<close> values of its tasks are exactly 1 to 30,
  and on each of these days there are four tasks, one of them of type \<open>exercise\<close>,
  when the day is divisible by 3, and three tasks, none of type \<open>exercise\<close>,
  otherwise.
\<close>

theorem fallback_plan_days:
  assumes "generateCoachingPlan g sc now l = Fallback p"
  shows "cp_duration p = 30
       \<and> set (map day (dailyTasks p)) = {1..30}
       \<and> (\<forall>d \<in> {1..30}. length (tasks_on p d) = (if d mod 3 = 0 then 4 else 3)
                         \<and> length (exercise_on p d) = (if d mod 3 = 0 then 1 else 0))"
proof -
  have p: "p = getMockCoachingPlan g now" by (rule fallback_is_mock[OF assms])
  have dur: "cp_duration p = 30" by (simp add: p getMockCoachingPlan_def)
  have days: "set (map day (dailyTasks p)) = {1..30}"
    unfolding p mock_dailyTasks days_of_concat by simp
  have on: "tasks_on p d = tasks_of_day d" if "d \<in> {1..30}" for d
    unfolding tasks_on_def p mock_dailyTasks using that by (intro filter_days) simp_all
  show ?thesis
    using dur days by (simp add: on exercise_on_def length_tasks_of_day exercise_tasks_of_day)
qed

theorem fallback_plan_days_witness:
  "generateCoachingPlan ''clear skin'' 72 1700000000000 Failed
     = Fallback (getMockCoachingPlan ''clear skin'' 1700000000000)
   \<and> length (tasks_on (getMockCoachingPlan ''clear skin'' 1700000000000) 3) = 4
   \<and> length (exercise_on (getMockCoachingPlan ''clear skin'' 1700000000000) 3) = 1
   \<and> length (tasks_on (getMockCoachingPlan ''clear skin'' 1700000000000) 4) = 3
   \<and> length (exercise_on (getMockCoachingPlan ''clear skin'' 1700000000000) 4) = 0
   \<and> length (dailyTasks (getMockCoachingPlan ''clear skin'' 1700000000000)) = 100"
proof -
  have h: "generateCoachingPlan ''clear skin'' 72 1700000000000 Failed
     = Fallback (getMockCoachingPlan ''clear skin'' 1700000000000)"
    by (simp add: generateCoachingPlan_def)
  have n: "length (dailyTasks (getMockCoachingPlan ''clear skin'' 1700000000000)) = 100"
    unfolding mock_dailyTasks by (simp add: length_concat length_tasks_of_day comp_def upto.simps)
  show ?thesis
    using fallback_plan_days[OF h] h n by simp
qed

end
